theory Spec2Isabelle
  imports Main "HOL-Library.AList" "HOL-Library.Log_Nat"
begin

section \<open>Strings of the analysed sources\<close>

text \<open>
  Source text is a list of characters. The scanner of \<^verbatim>\<open>core.ts\<close> works on lines
  with the string methods \<^verbatim>\<open>trim\<close>, \<^verbatim>\<open>startsWith\<close>, \<^verbatim>\<open>endsWith\<close>, \<^verbatim>\<open>includes\<close>,
  \<^verbatim>\<open>split\<close> and a fixed set of regular expressions. The white space of \<^verbatim>\<open>trim\<close> and
  of \<^verbatim>\<open>\s\<close> is the ASCII white space (tab, line feed, vertical tab, form feed, carriage
  return, space); the word characters of \<^verbatim>\<open>\w\<close> are letters, digits and the underscore.
  Sources are taken to be ASCII text.
\<close>

definition isSpace :: "char \<Rightarrow> bool" where
  "isSpace c = (c = CHR 0x09 \<or> c = CHR 0x0A \<or> c = CHR 0x0B \<or> c = CHR 0x0C \<or> c = CHR 0x0D \<or> c = CHR 0x20)"

definition isWordChar :: "char \<Rightarrow> bool" where
  "isWordChar c = (let n = of_char c :: nat in
     (48 \<le> n \<and> n \<le> 57) \<or> (65 \<le> n \<and> n \<le> 90) \<or> n = 95 \<or> (97 \<le> n \<and> n \<le> 122))"

definition dquote :: char where "dquote = CHR 0x22"
definition squote :: char where "squote = CHR 0x27"
definition backslash :: char where "backslash = CHR 0x5C"
definition newline :: char where "newline = CHR 0x0A"

definition isQuote :: "char \<Rightarrow> bool" where
  "isQuote c = (c = dquote \<or> c = squote)"

definition trim :: "string \<Rightarrow> string" where
  "trim s = rev (dropWhile isSpace (rev (dropWhile isSpace s)))"

definition startsWith :: "string \<Rightarrow> string \<Rightarrow> bool" where
  "startsWith s p = (take (length p) s = p)"

definition endsWith :: "string \<Rightarrow> string \<Rightarrow> bool" where
  "endsWith s p = (length p \<le> length s \<and> drop (length s - length p) s = p)"

fun includesStr :: "string \<Rightarrow> string \<Rightarrow> bool" where
  "includesStr [] p = (p = [])"
| "includesStr (c # cs) p = (startsWith (c # cs) p \<or> includesStr cs p)"

text \<open>\<^verbatim>\<open>s.split(c)\<close> for a one-character separator: always at least one piece.\<close>

fun splitOn :: "char \<Rightarrow> string \<Rightarrow> string list" where
  "splitOn sep [] = [[]]"
| "splitOn sep (c # cs) =
     (case splitOn sep cs of
        [] \<Rightarrow> [[c]]
      | p # ps \<Rightarrow> if c = sep then [] # p # ps else (c # p) # ps)"

text \<open>\<^verbatim>\<open>pieces.join(sep)\<close>.\<close>

fun joinWith :: "string \<Rightarrow> string list \<Rightarrow> string" where
  "joinWith sep [] = []"
| "joinWith sep [p] = p"
| "joinWith sep (p # q # ps) = p @ sep @ joinWith sep (q # ps)"

subsection \<open>Building blocks of the regular expressions\<close>

text \<open>
  Each function consumes a prefix of the text and returns what is left. In every
  expression of the source a greedy \<^verbatim>\<open>\s+\<close>, \<^verbatim>\<open>\s*\<close> or \<^verbatim>\<open>\w+\<close> is followed by
  something that cannot start with a character of the same class (or by nothing), so the
  greedy choice is the only one that can succeed and no backtracking is lost; the one
  exception, \<^verbatim>\<open>{\s*([^}]+)\s*}\<close>, is treated in \<open>braceBody\<close>.
\<close>

definition lit :: "string \<Rightarrow> string \<Rightarrow> string option" where
  "lit p s = (if startsWith s p then Some (drop (length p) s) else None)"

definition ws0 :: "string \<Rightarrow> string" where
  "ws0 s = dropWhile isSpace s"

definition ws1 :: "string \<Rightarrow> string option" where
  "ws1 s = (case s of [] \<Rightarrow> None | c # cs \<Rightarrow> if isSpace c then Some (dropWhile isSpace cs) else None)"

definition word1 :: "string \<Rightarrow> (string \<times> string) option" where
  "word1 s = (let w = takeWhile isWordChar s in
     if w = [] then None else Some (w, dropWhile isWordChar s))"

text \<open>\<^verbatim>\<open>["']([^"']+)["']\<close>: a quoted, non-empty module specifier.\<close>

definition quoted :: "string \<Rightarrow> (string \<times> string) option" where
  "quoted s = (case s of
      [] \<Rightarrow> None
    | c # cs \<Rightarrow>
        if isQuote c then
          (let body = takeWhile (\<lambda>x. \<not> isQuote x) cs; rest = dropWhile (\<lambda>x. \<not> isQuote x) cs
           in if body = [] \<or> rest = [] then None else Some (body, tl rest))
        else None)"

text \<open>
  \<^verbatim>\<open>{\s*([^}]+)\s*}\<close>, started at the brace. The greedy \<^verbatim>\<open>\s*\<close> takes the leading
  white space and the capture runs to the first closing brace. When nothing but white
  space stands between the braces, the engine backtracks: \<^verbatim>\<open>\s*\<close> gives back its last
  character, which becomes the capture.
\<close>

definition braceBody :: "string \<Rightarrow> string option" where
  "braceBody s = (case s of
      [] \<Rightarrow> None
    | c # cs \<Rightarrow>
        if c \<noteq> CHR ''{'' then None
        else
          (let sp = takeWhile isSpace cs; r = dropWhile isSpace cs;
               body = takeWhile (\<lambda>x. x \<noteq> CHR ''}'') r; rest = dropWhile (\<lambda>x. x \<noteq> CHR ''}'') r
           in if rest = [] then None
              else if body \<noteq> [] then Some body
              else if sp \<noteq> [] then Some [last sp]
              else None))"

text \<open>An unanchored search: the first position of the text where the matcher succeeds.\<close>

fun search :: "(string \<Rightarrow> 'a option) \<Rightarrow> string \<Rightarrow> 'a option" where
  "search m [] = m []"
| "search m (c # cs) = (case m (c # cs) of Some r \<Rightarrow> Some r | None \<Rightarrow> search m cs)"

definition bindO :: "'a option \<Rightarrow> ('a \<Rightarrow> 'b option) \<Rightarrow> 'b option" where
  "bindO x f = (case x of None \<Rightarrow> None | Some v \<Rightarrow> f v)"

text \<open>\<^verbatim>\<open>/from\s+["']([^"']+)["']/\<close>\<close>

definition fromMatch :: "string \<Rightarrow> string option" where
  "fromMatch s = search (\<lambda>t. bindO (lit ''from'' t) (\<lambda>t. bindO (ws1 t) (\<lambda>t.
      map_option fst (quoted t)))) s"

text \<open>\<^verbatim>\<open>/export\s*(?:type\s+)?{\s*([^}]+)\s*}/\<close>\<close>

definition optType :: "string \<Rightarrow> string" where
  "optType t = (case bindO (lit ''type'' t) ws1 of Some t' \<Rightarrow> t' | None \<Rightarrow> t)"

definition exportsMatch :: "string \<Rightarrow> string option" where
  "exportsMatch s = search (\<lambda>t. bindO (lit ''export'' t) (\<lambda>t. braceBody (optType (ws0 t)))) s"

text \<open>\<^verbatim>\<open>/export\s*{\s*([^}]+)\s*}/\<close>\<close>

definition exportBlockMatch :: "string \<Rightarrow> string option" where
  "exportBlockMatch s = search (\<lambda>t. bindO (lit ''export'' t) (\<lambda>t. braceBody (ws0 t))) s"

text \<open>\<^verbatim>\<open>/kw\s+(\w+)/\<close> for a keyword \<open>kw\<close>, and \<^verbatim>\<open>/(?:const|let|var)\s+(\w+)/\<close>.\<close>

definition kwName :: "string \<Rightarrow> string \<Rightarrow> string option" where
  "kwName kw t = bindO (lit kw t) (\<lambda>t. bindO (ws1 t) (\<lambda>t. map_option fst (word1 t)))"

definition varKwName :: "string \<Rightarrow> string option" where
  "varKwName t = (case kwName ''const'' t of Some n \<Rightarrow> Some n | None \<Rightarrow>
     (case kwName ''let'' t of Some n \<Rightarrow> Some n | None \<Rightarrow> kwName ''var'' t))"

text \<open>\<^verbatim>\<open>/export\s+kw\s+(\w+)/\<close> and its variants in \<^verbatim>\<open>extractExportName\<close>.\<close>

definition exportKw :: "(string \<Rightarrow> string option) \<Rightarrow> string \<Rightarrow> string option" where
  "exportKw m s = search (\<lambda>t. bindO (lit ''export'' t) (\<lambda>t. bindO (ws1 t) m)) s"

definition optAsync :: "string \<Rightarrow> string" where
  "optAsync t = (case bindO (lit ''async'' t) ws1 of Some t' \<Rightarrow> t' | None \<Rightarrow> t)"

text \<open>
  \<^verbatim>\<open>s.split(/\s+as\s+/)\<close>: the text is cut at every match, found from left to right.
  \<open>asSep\<close> is the separator at the head of the text; the pieces are collected with the
  characters of the current piece in reverse.
\<close>

definition asSep :: "string \<Rightarrow> string option" where
  "asSep t = bindO (ws1 t) (\<lambda>t. bindO (lit ''as'' t) ws1)"

lemma dropWhile_length_le: "length (dropWhile P xs) \<le> length xs"
  by (induction xs) auto

lemma ws1_shorter: "ws1 s = Some r \<Longrightarrow> length r < length s"
  using dropWhile_length_le [of isSpace "tl s"]
  by (cases s) (auto simp: ws1_def split: if_splits)

lemma lit_shorter: "lit p s = Some r \<Longrightarrow> length r \<le> length s"
  by (auto simp: lit_def split: if_splits)

lemma asSep_shorter: "asSep s = Some r \<Longrightarrow> length r < length s"
  by (auto simp: asSep_def bindO_def split: option.splits
      dest!: ws1_shorter lit_shorter)

function splitAsAux :: "string \<Rightarrow> string \<Rightarrow> string list" where
  "splitAsAux cur [] = [rev cur]"
| "splitAsAux cur (c # cs) =
     (case asSep (c # cs) of
        Some rest \<Rightarrow> rev cur # splitAsAux [] rest
      | None \<Rightarrow> splitAsAux (c # cur) cs)"
  by pat_completeness auto
termination
  by (relation "measure (\<lambda>(cur, s). length s)") (auto dest: asSep_shorter)

definition splitAs :: "string \<Rightarrow> string list" where
  "splitAs s = splitAsAux [] s"

section \<open>Data model\<close>

datatype SymbolType = Function | Class | Interface | Type | Const | Variable | Enum

datatype ExportKind = Named | Default

record TracedExport =
  originalName :: string
  exportedName :: string
  sourcePath :: string
  line :: nat

record ExportedSymbol =
  name :: string
  type :: SymbolType
  file' :: string
  line :: nat
  hasJSDoc :: bool
  jsDocContent :: "string option"
  exportType :: ExportKind

section \<open>Line classifier\<close>

definition isDirectExport :: "string \<Rightarrow> bool" where
  "isDirectExport l =
    (startsWith l ''export function'' \<or>
     startsWith l ''export async function'' \<or>
     startsWith l ''export class'' \<or>
     startsWith l ''export interface'' \<or>
     startsWith l ''export type'' \<or>
     startsWith l ''export enum'' \<or>
     startsWith l ''export const'' \<or>
     startsWith l ''export let'' \<or>
     startsWith l ''export var'' \<or>
     startsWith l ''export default'')"

text \<open>The six patterns of \<^verbatim>\<open>extractExportName\<close>, tried in the order of the source.\<close>

definition exportNamePatterns :: "(string \<Rightarrow> string option) list" where
  "exportNamePatterns =
    [exportKw (\<lambda>t. kwName ''function'' (optAsync t)),
     exportKw (kwName ''class''),
     exportKw (kwName ''interface''),
     exportKw (kwName ''type''),
     exportKw (kwName ''enum''),
     exportKw varKwName]"

fun firstSome :: "('a \<Rightarrow> 'b option) list \<Rightarrow> 'a \<Rightarrow> 'b option" where
  "firstSome [] x = None"
| "firstSome (f # fs) x = (case f x of Some r \<Rightarrow> Some r | None \<Rightarrow> firstSome fs x)"

definition extractExportName :: "string \<Rightarrow> string option" where
  "extractExportName l =
    (case firstSome exportNamePatterns l of
       Some n \<Rightarrow> Some n
     | None \<Rightarrow> if includesStr l ''export default'' then Some ''default'' else None)"

definition isExportLine :: "string \<Rightarrow> bool" where
  "isExportLine l =
    (startsWith l ''export '' \<or>
     (includesStr l ''export {'' \<and> \<not> includesStr l ''export type {'') \<or>
     includesStr l ''export default'')"

section \<open>Symbol synthesizer\<close>

text \<open>
  \<^verbatim>\<open>parseExportedSymbol\<close> computes a name, a kind and an export kind from the
  declaration text; \<open>parseNameType\<close> is the chain of its branches. A branch whose
  regular expression does not match leaves the name empty, and an empty name makes the
  function return \<^verbatim>\<open>null\<close>. In the branch of the block export only the first
  listed item is looked at.
\<close>

definition orDefault :: "string option \<Rightarrow> string" where
  "orDefault m = (case m of Some n \<Rightarrow> n | None \<Rightarrow> ''default'')"

definition named :: "string option \<Rightarrow> SymbolType \<Rightarrow> string \<times> SymbolType \<times> ExportKind" where
  "named m t = (case m of Some n \<Rightarrow> (n, t, Named) | None \<Rightarrow> ([], Variable, Named))"

definition firstBlockName :: "string \<Rightarrow> string" where
  "firstBlockName body =
    (case map trim (splitOn (CHR '','') body) of
       [] \<Rightarrow> []
     | e # es \<Rightarrow> (case splitAs e of [] \<Rightarrow> [] | n # ns \<Rightarrow> n))"

definition parseNameType :: "string \<Rightarrow> string \<times> SymbolType \<times> ExportKind" where
  "parseNameType trimmed =
    (if includesStr trimmed ''export default'' then
       (if includesStr trimmed ''function'' then
          (orDefault (search (kwName ''function'') trimmed), Function, Default)
        else if includesStr trimmed ''class'' then
          (orDefault (search (kwName ''class'') trimmed), Class, Default)
        else (''default'', Variable, Default))
     else if startsWith trimmed ''export function'' \<or> startsWith trimmed ''export async function'' then
       named (search (kwName ''function'') trimmed) Function
     else if startsWith trimmed ''export class'' then
       named (search (kwName ''class'') trimmed) Class
     else if startsWith trimmed ''export interface'' then
       named (search (kwName ''interface'') trimmed) Interface
     else if startsWith trimmed ''export type'' then
       named (search (kwName ''type'') trimmed) Type
     else if startsWith trimmed ''export enum'' then
       named (search (kwName ''enum'') trimmed) Enum
     else if startsWith trimmed ''export const'' \<or> startsWith trimmed ''export let'' \<or>
             startsWith trimmed ''export var'' then
       named (search varKwName trimmed) (if includesStr trimmed ''const'' then Const else Variable)
     else if includesStr trimmed ''export {'' \<and> \<not> includesStr trimmed ''from'' then
       (case exportBlockMatch trimmed of
          Some body \<Rightarrow> (firstBlockName body, Variable, Named)
        | None \<Rightarrow> ([], Variable, Named))
     else if startsWith trimmed ''class '' then
       named (search (kwName ''class'') trimmed) Class
     else if startsWith trimmed ''function '' \<or> startsWith trimmed ''async function '' then
       named (search (kwName ''function'') trimmed) Function
     else if startsWith trimmed ''interface '' then
       named (search (kwName ''interface'') trimmed) Interface
     else if startsWith trimmed ''type '' then
       named (search (kwName ''type'') trimmed) Type
     else if startsWith trimmed ''enum '' then
       named (search (kwName ''enum'') trimmed) Enum
     else if startsWith trimmed ''const '' \<or> startsWith trimmed ''let '' \<or>
             startsWith trimmed ''var '' then
       named (search varKwName trimmed) (if startsWith trimmed ''const'' then Const else Variable)
     else ([], Variable, Named))"

definition parseExportedSymbol ::
  "string \<Rightarrow> nat \<Rightarrow> string \<Rightarrow> (nat \<rightharpoonup> string) \<Rightarrow> ExportedSymbol option" where
  "parseExportedSymbol l lineIndex filePath jsDocBlocks =
    (case parseNameType (trim l) of (n, t, k) \<Rightarrow>
       if n = [] then None
       else Some \<lparr>name = n, type = t, file' = filePath, line = lineIndex + 1,
                  hasJSDoc = (jsDocBlocks lineIndex \<noteq> None),
                  jsDocContent = jsDocBlocks lineIndex, exportType = k\<rparr>)"

section \<open>Statistics aggregator\<close>

subsection \<open>The arithmetic of \<^verbatim>\<open>number\<close>\<close>

text \<open>
  \<^verbatim>\<open>Math.round((stats.documented / stats.total) * 100)\<close> is computed on IEEE 754
  double-precision numbers: the quotient is rounded to the nearest double (ties to the
  even significand), so is the product, and \<^verbatim>\<open>Math.round\<close> then takes the nearest
  integer, a tie going up. A double is represented by the rational number it denotes.
  \<open>toDouble\<close> rounds a rational to 53 significant bits; this is the rounding of the
  hardware for every value in the normal range, which the quotients and products of
  array lengths (integers below \<open>2 ^ 32\<close>, themselves exact as doubles) never leave.
\<close>

definition pow2 :: "int \<Rightarrow> rat" where
  "pow2 e = 2 powi e"

text \<open>The binary exponent of a positive rational: \<open>pow2 (ilog2 x) \<le> x < pow2 (ilog2 x + 1)\<close>.\<close>

definition ilog2 :: "rat \<Rightarrow> int" where
  "ilog2 x = (case quotient_of x of (p, q) \<Rightarrow>
     (let e0 = bitlen p - bitlen q in if pow2 e0 \<le> x then e0 else e0 - 1))"

definition roundHalfEven :: "rat \<Rightarrow> int" where
  "roundHalfEven r = (let f = \<lfloor>r\<rfloor>; d = r - of_int f in
     if d < 1 / 2 then f else if 1 / 2 < d then f + 1 else if even f then f else f + 1)"

definition toDoublePos :: "rat \<Rightarrow> rat" where
  "toDoublePos x = (let e = ilog2 x - 52 in of_int (roundHalfEven (x / pow2 e)) * pow2 e)"

definition toDouble :: "rat \<Rightarrow> rat" where
  "toDouble x = (if x = 0 then 0 else if 0 < x then toDoublePos x else - toDoublePos (- x))"

definition fdiv :: "rat \<Rightarrow> rat \<Rightarrow> rat" where
  "fdiv a b = toDouble (a / b)"

definition fmul :: "rat \<Rightarrow> rat \<Rightarrow> rat" where
  "fmul a b = toDouble (a * b)"

definition mathRound :: "rat \<Rightarrow> int" where
  "mathRound x = \<lfloor>x + 1 / 2\<rfloor>"

subsection \<open>\<^verbatim>\<open>calculateStats\<close>\<close>

text \<open>
  \<^verbatim>\<open>byType\<close> is an object used as a dictionary from the kind to a pair of counters
  (total, documented); its keys are kept in the order of their first insertion.
\<close>

record DocumentationStats =
  total :: nat
  documented :: nat
  undocumented :: nat
  percentage :: int
  byType :: "(SymbolType \<times> nat \<times> nat) list"

definition countSymbol :: "ExportedSymbol \<Rightarrow> (SymbolType \<times> nat \<times> nat) list \<Rightarrow> (SymbolType \<times> nat \<times> nat) list" where
  "countSymbol s bt =
    (let (t, d) = (case map_of bt (type s) of None \<Rightarrow> (0, 0) | Some c \<Rightarrow> c)
     in AList.update (type s) (t + 1, if hasJSDoc s then d + 1 else d) bt)"

definition calculateStats :: "ExportedSymbol list \<Rightarrow> DocumentationStats" where
  "calculateStats symbols =
    (let tot = length symbols;
         doc = length (filter hasJSDoc symbols);
         undoc = length (filter (\<lambda>s. \<not> hasJSDoc s) symbols)
     in \<lparr>total = tot, documented = doc, undocumented = undoc,
         percentage = (if 0 < tot then mathRound (fmul (fdiv (of_nat doc) (of_nat tot)) 100) else 100),
         byType = fold countSymbol symbols []\<rparr>)"

section \<open>The environment of a run\<close>

text \<open>
  The analyser reads the file system through \<^verbatim>\<open>Deno.readTextFile\<close> and
  \<^verbatim>\<open>Deno.stat\<close> and computes paths with \<^verbatim>\<open>join\<close>, \<^verbatim>\<open>dirname\<close>,
  \<^verbatim>\<open>resolve\<close> and \<^verbatim>\<open>relative\<close> of the standard library. A run is modelled against
  an environment: the readable files with their text, the directories (paths that can be
  inspected but not read as text), and the library functions, which are parameters.
  The regular expressions that \<^verbatim>\<open>findSymbolInFile\<close> builds from a symbol name are
  modelled directly when the name consists of word characters; for any other name the
  engine of the runtime decides (\<open>regexpValid\<close>: the constructor accepts the pattern,
  \<open>regexpTest\<close>: the pattern matches the line).
\<close>

datatype error = ReadError string | StatError string

datatype StatKind = IsFile | IsDirectory

datatype ExportsField = ExportsString string | ExportsRecord "(string \<times> string) list"

record DenoConfig =
  exports :: "ExportsField option"

record env =
  files :: "(string \<times> string) list"
  dirs :: "string list"
  join :: "string \<Rightarrow> string \<Rightarrow> string"
  dirname :: "string \<Rightarrow> string"
  resolve :: "string \<Rightarrow> string"
  relative :: "string \<Rightarrow> string \<Rightarrow> string"
  cwd :: string
  walk :: "string \<Rightarrow> string list"
  jsonParse :: "string \<Rightarrow> DenoConfig option option"
  regexpValid :: "string \<Rightarrow> bool"
  regexpTest :: "string \<Rightarrow> string \<Rightarrow> bool"

definition readTextFile :: "env \<Rightarrow> string \<Rightarrow> error + string" where
  "readTextFile E p = (case map_of (files E) p of Some c \<Rightarrow> Inr c | None \<Rightarrow> Inl (ReadError p))"

definition stat :: "env \<Rightarrow> string \<Rightarrow> error + StatKind" where
  "stat E p =
    (if map_of (files E) p \<noteq> None then Inr IsFile
     else if p \<in> set (dirs E) then Inr IsDirectory
     else Inl (StatError p))"

definition splitLines :: "string \<Rightarrow> string list" where
  "splitLines content = splitOn newline content"

section \<open>Module path resolution\<close>

definition extensions :: "string list" where
  "extensions = [''.ts'', ''.tsx'', ''.js'', ''.jsx'', ''.mjs'', ''/mod.ts'', ''/index.ts'']"

fun tryExtensions :: "env \<Rightarrow> string \<Rightarrow> string list \<Rightarrow> string option" where
  "tryExtensions E basePath [] = None"
| "tryExtensions E basePath (ext # exts) =
     (let fullPath = (if endsWith basePath ''.ts'' \<or> endsWith basePath ''.js''
                      then basePath else basePath @ ext)
      in case stat E fullPath of
           Inr k \<Rightarrow> Some (resolve E fullPath)
         | Inl e \<Rightarrow> tryExtensions E basePath exts)"

definition resolveImportPath :: "env \<Rightarrow> string \<Rightarrow> string \<Rightarrow> string option" where
  "resolveImportPath E importPath fromDir =
    (if startsWith importPath ''.'' then
       (let basePath = join E fromDir importPath
        in case stat E basePath of
             Inr k \<Rightarrow> Some (resolve E basePath)
           | Inl e \<Rightarrow> tryExtensions E basePath extensions)
     else None)"

section \<open>Declaration locator\<close>

text \<open>
  \<^verbatim>\<open>\s+NAME\b\<close> for a name of word characters. A non-empty name starts with a
  character that is no white space, so \<^verbatim>\<open>\s+\<close> takes all the white space; the word
  boundary after the name holds when no word character follows. For the empty name the
  boundary stands between the white space and a following word character.
\<close>

definition isWord :: "string \<Rightarrow> bool" where
  "isWord n = list_all isWordChar n"

definition wsNameB :: "string \<Rightarrow> string \<Rightarrow> bool" where
  "wsNameB n t =
    (case ws1 t of
       None \<Rightarrow> False
     | Some r \<Rightarrow>
         startsWith r n \<and>
         (let after = drop (length n) r;
              nextIsWord = (case after of [] \<Rightarrow> False | c # cs \<Rightarrow> isWordChar c)
          in if n = [] then nextIsWord else \<not> nextIsWord))"

definition kwDecl :: "string \<Rightarrow> string \<Rightarrow> string \<Rightarrow> bool" where
  "kwDecl kw n t = (case lit kw t of None \<Rightarrow> False | Some r \<Rightarrow> wsNameB n r)"

text \<open>The six anchored patterns of \<^verbatim>\<open>findSymbolInFile\<close> for a name of word characters.\<close>

definition bareDeclaration :: "string \<Rightarrow> string \<Rightarrow> bool" where
  "bareDeclaration n l =
    (kwDecl ''function'' n (optAsync l) \<or>
     kwDecl ''class'' n l \<or>
     kwDecl ''interface'' n l \<or>
     kwDecl ''type'' n l \<or>
     kwDecl ''enum'' n l \<or>
     kwDecl ''const'' n l \<or> kwDecl ''let'' n l \<or> kwDecl ''var'' n l)"

text \<open>The sources of the same patterns, as the template literals build them.\<close>

definition declPatternSources :: "string \<Rightarrow> string list" where
  "declPatternSources n =
    [''^(?:async'' @ [backslash] @ ''s+)?function'' @ [backslash] @ ''s+'' @ n @ [backslash] @ ''b'',
     ''^class'' @ [backslash] @ ''s+'' @ n @ [backslash] @ ''b'',
     ''^interface'' @ [backslash] @ ''s+'' @ n @ [backslash] @ ''b'',
     ''^type'' @ [backslash] @ ''s+'' @ n @ [backslash] @ ''b'',
     ''^enum'' @ [backslash] @ ''s+'' @ n @ [backslash] @ ''b'',
     ''^(?:const|let|var)'' @ [backslash] @ ''s+'' @ n @ [backslash] @ ''b'']"

text \<open>
  One line of the scan: \<open>Found\<close> returns the line number, \<open>Threw\<close> is the exception
  of a pattern that the constructor rejects (caught by the function, which then returns
  \<^verbatim>\<open>null\<close>), \<open>NoMatch\<close> goes on with the next line.
\<close>

datatype lineResult = Found | Threw | NoMatch

definition symbolOnLine :: "env \<Rightarrow> string \<Rightarrow> string \<Rightarrow> lineResult" where
  "symbolOnLine E symbolName l =
    (if isDirectExport l \<and> extractExportName l = Some symbolName then Found
     else if isWord symbolName then (if bareDeclaration symbolName l then Found else NoMatch)
     else if \<not> list_all (regexpValid E) (declPatternSources symbolName) then Threw
     else if list_ex (\<lambda>src. regexpTest E src l) (declPatternSources symbolName) then Found
     else NoMatch)"

fun findSymbolFrom :: "env \<Rightarrow> string \<Rightarrow> nat \<Rightarrow> string list \<Rightarrow> nat option" where
  "findSymbolFrom E symbolName i [] = None"
| "findSymbolFrom E symbolName i (l # ls) =
     (case symbolOnLine E symbolName (trim l) of
        Found \<Rightarrow> Some (i + 1)
      | Threw \<Rightarrow> None
      | NoMatch \<Rightarrow> findSymbolFrom E symbolName (i + 1) ls)"

definition findSymbolInFile :: "env \<Rightarrow> string \<Rightarrow> string \<Rightarrow> nat option" where
  "findSymbolInFile E filePath symbolName =
    (case readTextFile E filePath of
       Inl e \<Rightarrow> None
     | Inr content \<Rightarrow> findSymbolFrom E symbolName 0 (splitLines content))"

section \<open>Import sources\<close>

text \<open>
  \<^verbatim>\<open>/import\s*{([^}]+)}\s*from\s*["']([^"']+)["']/\<close>,
  \<^verbatim>\<open>/import\s+(\w+)\s+from\s*["']([^"']+)["']/\<close> and
  \<^verbatim>\<open>/import\s*\*\s+as\s+(\w+)\s+from\s*["']([^"']+)["']/\<close>: each returns its two groups.
\<close>

definition fromQuoted :: "string \<Rightarrow> string option" where
  "fromQuoted t = bindO (lit ''from'' t) (\<lambda>t. map_option fst (quoted (ws0 t)))"

definition bracedList :: "string \<Rightarrow> (string \<times> string) option" where
  "bracedList t = bindO (lit ''{'' t) (\<lambda>t.
     (let body = takeWhile (\<lambda>x. x \<noteq> CHR ''}'') t; rest = dropWhile (\<lambda>x. x \<noteq> CHR ''}'') t
      in if body = [] \<or> rest = [] then None else Some (body, tl rest)))"

definition namedImportMatch :: "string \<Rightarrow> (string \<times> string) option" where
  "namedImportMatch s = search (\<lambda>t. bindO (lit ''import'' t) (\<lambda>t. bindO (bracedList (ws0 t))
     (\<lambda>(body, t). map_option (\<lambda>p. (body, p)) (fromQuoted (ws0 t))))) s"

definition wordThenFrom :: "string \<Rightarrow> (string \<times> string) option" where
  "wordThenFrom t = bindO (word1 t) (\<lambda>(w, t). bindO (ws1 t) (\<lambda>t.
     map_option (\<lambda>p. (w, p)) (fromQuoted t)))"

definition defaultImportMatch :: "string \<Rightarrow> (string \<times> string) option" where
  "defaultImportMatch s = search (\<lambda>t. bindO (lit ''import'' t) (\<lambda>t. bindO (ws1 t) wordThenFrom)) s"

definition namespaceImportMatch :: "string \<Rightarrow> (string \<times> string) option" where
  "namespaceImportMatch s = search (\<lambda>t. bindO (lit ''import'' t) (\<lambda>t. bindO (lit ''*'' (ws0 t))
     (\<lambda>t. bindO (ws1 t) (\<lambda>t. bindO (lit ''as'' t) (\<lambda>t. bindO (ws1 t) wordThenFrom))))) s"

text \<open>
  An item \<^verbatim>\<open>a as b\<close> of an import or export list: the first piece, and the second
  when there is one.
\<close>

definition splitItem :: "string \<Rightarrow> string \<times> string option" where
  "splitItem item =
    (case map trim (splitAs item) of
       [] \<Rightarrow> ([], None)
     | [a] \<Rightarrow> (a, None)
     | a # b # rest \<Rightarrow> (a, Some b))"

definition importsSymbol :: "string \<Rightarrow> string \<Rightarrow> bool" where
  "importsSymbol symbolName imp =
    (case splitItem imp of (imported, alias) \<Rightarrow> imported = symbolName \<or> alias = Some symbolName)"

text \<open>
  One line of \<^verbatim>\<open>findImportSource\<close>: \<open>Some r\<close> when the function returns \<open>r\<close> at
  this line, \<open>None\<close> when the loop goes on.
\<close>

definition importSourceOnLine :: "env \<Rightarrow> string \<Rightarrow> string \<Rightarrow> string \<Rightarrow> string option option" where
  "importSourceOnLine E symbolName currentDir trimmed =
    (if startsWith trimmed ''import '' then
       (case (case namedImportMatch trimmed of
                Some (body, importPath) \<Rightarrow>
                  if list_ex (importsSymbol symbolName) (map trim (splitOn (CHR '','') body))
                  then Some (resolveImportPath E importPath currentDir) else None
              | None \<Rightarrow> None) of
          Some r \<Rightarrow> Some r
        | None \<Rightarrow>
           (case (case defaultImportMatch trimmed of
                    Some (w, importPath) \<Rightarrow>
                      if w = symbolName then Some (resolveImportPath E importPath currentDir) else None
                  | None \<Rightarrow> None) of
              Some r \<Rightarrow> Some r
            | None \<Rightarrow>
               (case namespaceImportMatch trimmed of
                  Some (w, importPath) \<Rightarrow>
                    if w = symbolName then Some (resolveImportPath E importPath currentDir) else None
                | None \<Rightarrow> None)))
     else None)"

fun findImportSourceLines :: "env \<Rightarrow> string \<Rightarrow> string \<Rightarrow> string list \<Rightarrow> string option" where
  "findImportSourceLines E symbolName currentDir [] = None"
| "findImportSourceLines E symbolName currentDir (l # ls) =
     (case importSourceOnLine E symbolName currentDir (trim l) of
        Some r \<Rightarrow> r
      | None \<Rightarrow> findImportSourceLines E symbolName currentDir ls)"

definition findImportSource :: "env \<Rightarrow> string \<Rightarrow> string \<Rightarrow> string \<Rightarrow> string option" where
  "findImportSource E fileContent symbolName currentDir =
    findImportSourceLines E symbolName currentDir (splitLines fileContent)"

section \<open>Import and re-export tracer\<close>

text \<open>
  The traversal state: the set \<^verbatim>\<open>analyzedFiles\<close> of the files entered so far and
  the \<^verbatim>\<open>exportMap\<close>, a \<^verbatim>\<open>Map\<close> from a file to its bucket of traced exports, kept
  in the order of insertion of its keys.
\<close>

record traceState =
  analyzedFiles :: "string set"
  exportMap :: "(string \<times> TracedExport list) list"

definition bucket :: "(string \<times> TracedExport list) list \<Rightarrow> string \<Rightarrow> TracedExport list" where
  "bucket m filePath = (case map_of m filePath of Some b \<Rightarrow> b | None \<Rightarrow> [])"

definition isDuplicate :: "TracedExport list \<Rightarrow> TracedExport \<Rightarrow> bool" where
  "isDuplicate existing exportInfo =
    list_ex (\<lambda>e. exportedName e = exportedName exportInfo \<and> sourcePath e = sourcePath exportInfo) existing"

definition addExport ::
  "(string \<times> TracedExport list) list \<Rightarrow> string \<Rightarrow> TracedExport \<Rightarrow> (string \<times> TracedExport list) list" where
  "addExport m filePath exportInfo =
    (let existing = bucket m filePath
     in AList.update filePath
          (if isDuplicate existing exportInfo then existing else existing @ [exportInfo]) m)"

definition addExportSt :: "string \<Rightarrow> TracedExport \<Rightarrow> traceState \<Rightarrow> traceState" where
  "addExportSt filePath exportInfo st = st\<lparr>exportMap := addExport (exportMap st) filePath exportInfo\<rparr>"

text \<open>\<^verbatim>\<open>lineNum || i + 1\<close> and \<^verbatim>\<open>exportedName || originalName\<close>.\<close>

definition lineOr :: "nat option \<Rightarrow> nat \<Rightarrow> nat" where
  "lineOr lineNum d = (case lineNum of None \<Rightarrow> d | Some n \<Rightarrow> if n = 0 then d else n)"

definition nameOr :: "string option \<Rightarrow> string \<Rightarrow> string" where
  "nameOr exported original = (case exported of None \<Rightarrow> original | Some e \<Rightarrow> if e = [] then original else e)"

text \<open>One item of \<^verbatim>\<open>export { a, b as c } from "spec"\<close>, resolved to \<open>resolvedPath\<close>.\<close>

definition selectiveExport :: "env \<Rightarrow> string \<Rightarrow> nat \<Rightarrow> string \<Rightarrow> TracedExport" where
  "selectiveExport E resolvedPath i exportItem =
    (case splitItem exportItem of (original, exported) \<Rightarrow>
       \<lparr>originalName = original, exportedName = nameOr exported original,
        sourcePath = resolvedPath,
        line = lineOr (findSymbolInFile E resolvedPath original) (i + 1)\<rparr>)"

text \<open>
  One item of \<^verbatim>\<open>export { a, b as c }\<close> without a \<^verbatim>\<open>from\<close> clause: the module the
  name was imported from, or else the current file.
\<close>

definition localExport :: "env \<Rightarrow> string \<Rightarrow> string \<Rightarrow> string \<Rightarrow> nat \<Rightarrow> string \<Rightarrow> TracedExport" where
  "localExport E filePath content currentDir i exportItem =
    (case splitItem exportItem of (original, exported) \<Rightarrow>
       (case findImportSource E content original currentDir of
          Some importSource \<Rightarrow>
            \<lparr>originalName = original, exportedName = nameOr exported original,
             sourcePath = importSource,
             line = lineOr (findSymbolInFile E importSource original) (i + 1)\<rparr>
        | None \<Rightarrow>
            \<lparr>originalName = original, exportedName = nameOr exported original,
             sourcePath = filePath,
             line = lineOr (findSymbolInFile E filePath original) (i + 1)\<rparr>))"

definition exportItems :: "string \<Rightarrow> string list" where
  "exportItems body = map trim (splitOn (CHR '','') body)"

text \<open>
  The body of the loop over the lines of a file. \<open>rec\<close> is the recursive call of
  \<^verbatim>\<open>traceExportsFromFile\<close>, which may not return (\<open>None\<close>).
\<close>

definition traceLine ::
  "(string \<Rightarrow> traceState \<Rightarrow> traceState option) \<Rightarrow> env \<Rightarrow> string \<Rightarrow> string \<Rightarrow> string
    \<Rightarrow> nat \<Rightarrow> string \<Rightarrow> traceState \<Rightarrow> traceState option" where
  "traceLine rec E filePath content currentDir i l st =
    (let trimmed = trim l in
     if startsWith trimmed ''export *'' \<or> startsWith trimmed ''export {'' \<or>
        startsWith trimmed ''export type {'' then
       (case fromMatch trimmed of
          Some importPath \<Rightarrow>
            (case resolveImportPath E importPath currentDir of
               Some resolvedPath \<Rightarrow>
                 if startsWith trimmed ''export *'' then
                   (case rec resolvedPath st of
                      None \<Rightarrow> None
                    | Some st' \<Rightarrow>
                        Some (fold (addExportSt filePath) (bucket (exportMap st') resolvedPath) st'))
                 else
                   (case exportsMatch trimmed of
                      Some body \<Rightarrow>
                        Some (fold (\<lambda>item. addExportSt filePath (selectiveExport E resolvedPath i item))
                                (exportItems body) st)
                    | None \<Rightarrow> Some st)
             | None \<Rightarrow> Some st)
        | None \<Rightarrow>
            if startsWith trimmed ''export {'' \<or> startsWith trimmed ''export type {'' then
              (case exportsMatch trimmed of
                 Some body \<Rightarrow>
                   Some (fold (\<lambda>item. addExportSt filePath
                                 (localExport E filePath content currentDir i item))
                           (exportItems body) st)
               | None \<Rightarrow> Some st)
            else Some st)
     else if isDirectExport trimmed then
       (case extractExportName trimmed of
          Some symbolName \<Rightarrow>
            if symbolName = [] then Some st
            else Some (addExportSt filePath
                   \<lparr>originalName = symbolName, exportedName = symbolName,
                    sourcePath = filePath, line = i + 1\<rparr> st)
        | None \<Rightarrow> Some st)
     else Some st)"

fun traceLines ::
  "(string \<Rightarrow> traceState \<Rightarrow> traceState option) \<Rightarrow> env \<Rightarrow> string \<Rightarrow> string \<Rightarrow> string
    \<Rightarrow> (nat \<times> string) list \<Rightarrow> traceState \<Rightarrow> traceState option" where
  "traceLines rec E filePath content currentDir [] st = Some st"
| "traceLines rec E filePath content currentDir ((i, l) # ls) st =
     (case traceLine rec E filePath content currentDir i l st of
        None \<Rightarrow> None
      | Some st' \<Rightarrow> traceLines rec E filePath content currentDir ls st')"

text \<open>
  The body of \<^verbatim>\<open>traceExportsFromFile\<close>. The file is added to \<^verbatim>\<open>analyzedFiles\<close>
  before it is read; a read that fails throws inside the \<^verbatim>\<open>try\<close> block, and the
  \<^verbatim>\<open>catch\<close> clause swallows the exception.
\<close>

definition traceBody ::
  "(string \<Rightarrow> traceState \<Rightarrow> traceState option) \<Rightarrow> env \<Rightarrow> string \<Rightarrow> traceState \<Rightarrow> traceState option" where
  "traceBody rec E filePath st =
    (if filePath \<in> analyzedFiles st then Some st
     else
       (let st1 = st\<lparr>analyzedFiles := insert filePath (analyzedFiles st)\<rparr>
        in case readTextFile E filePath of
             Inl e \<Rightarrow> Some st1
           | Inr content \<Rightarrow>
               traceLines rec E filePath content (dirname E filePath)
                 (enumerate 0 (splitLines content)) st1))"

text \<open>
  The recursion of \<^verbatim>\<open>traceExportsFromFile\<close> through \<^verbatim>\<open>export * from\<close>, unfolded to a
  depth: \<open>traceDepth n\<close> allows \<open>n\<close> nested calls and is \<open>None\<close> when a chain of
  re-exports is deeper. \<open>depthBound\<close> is one more than the number of paths that
  \<^verbatim>\<open>Deno.stat\<close> accepts, plus one for the entry file; \<open>traceExportsFromFile\<close> runs
  with this depth, and \<open>None\<close> stands for a call that does not return.
\<close>

primrec traceDepth :: "nat \<Rightarrow> env \<Rightarrow> string \<Rightarrow> traceState \<Rightarrow> traceState option" where
  "traceDepth 0 E filePath st = None"
| "traceDepth (Suc n) E filePath st = traceBody (traceDepth n E) E filePath st"

definition depthBound :: "env \<Rightarrow> nat" where
  "depthBound E = length (files E) + length (dirs E) + 2"

definition traceExportsFromFile :: "env \<Rightarrow> string \<Rightarrow> traceState \<Rightarrow> traceState option" where
  "traceExportsFromFile E filePath st = traceDepth (depthBound E) E filePath st"

section \<open>Documentation associator and symbol collection\<close>

text \<open>
  \<^verbatim>\<open>jsDocBlocks\<close> maps a line index to the text of the documentation block bound to
  it; \<^verbatim>\<open>currentJSDoc\<close> holds the lines of a block that is still open.
\<close>

type_synonym docBlocks = "nat \<rightharpoonup> string"

text \<open>The first line at or after index \<open>j\<close> that is neither blank nor a line comment.\<close>

fun nextCode :: "nat \<Rightarrow> string list \<Rightarrow> (nat \<times> string) option" where
  "nextCode j [] = None"
| "nextCode j (l # ls) =
     (let nextLine = trim l
      in if nextLine \<noteq> [] \<and> \<not> startsWith nextLine ''//'' then Some (j, nextLine)
         else nextCode (j + 1) ls)"

text \<open>Binding a block to line \<open>j\<close> and to the five lines after it that exist.\<close>

definition setRange :: "nat \<Rightarrow> nat \<Rightarrow> string \<Rightarrow> docBlocks \<Rightarrow> docBlocks" where
  "setRange j len c b = fold (\<lambda>k m. m(k \<mapsto> c)) [j ..< min (j + 6) len] b"

definition associateExport :: "string list \<Rightarrow> nat \<Rightarrow> string \<Rightarrow> docBlocks \<Rightarrow> docBlocks" where
  "associateExport lines i doc b =
    (case nextCode (i + 1) (drop (i + 1) lines) of
       None \<Rightarrow> b
     | Some (j, nextLine) \<Rightarrow>
         if isDirectExport nextLine \<or> startsWith nextLine ''export ''
         then setRange j (length lines) doc b else b)"

definition associateNext :: "string list \<Rightarrow> nat \<Rightarrow> string \<Rightarrow> docBlocks \<Rightarrow> docBlocks" where
  "associateNext lines i doc b =
    (case nextCode (i + 1) (drop (i + 1) lines) of
       None \<Rightarrow> b
     | Some (j, nextLine) \<Rightarrow> b(j \<mapsto> doc))"

text \<open>
  A declaration that shows neither a brace nor a semicolon on its first line is joined
  with up to nine following lines, until one of them shows a brace or a semicolon.
\<close>

fun gather :: "string \<Rightarrow> string list \<Rightarrow> string" where
  "gather acc [] = acc"
| "gather acc (l # ls) =
     (let acc' = acc @ '' '' @ trim l
      in if includesStr l ''{'' \<or> includesStr l '';'' then acc' else gather acc' ls)"

definition gatherDeclaration :: "string list \<Rightarrow> nat \<Rightarrow> string \<Rightarrow> string" where
  "gatherDeclaration lines i trimmed =
    (if \<not> includesStr trimmed ''{'' \<and> \<not> includesStr trimmed '';''
     then gather trimmed (take 9 (drop (i + 1) lines)) else trimmed)"

record scanState =
  jsDocBlocks :: docBlocks
  currentJSDoc :: "string list"
  collected :: "ExportedSymbol list"

subsection \<open>Public-API mode: \<^verbatim>\<open>analyzeFileForJSDoc\<close>\<close>

text \<open>
  The tracking of documentation blocks at line \<open>i\<close>. The result carries a flag for the
  \<^verbatim>\<open>continue\<close> statement, which ends the iteration when a module-level block closes.
\<close>

definition trackDocTraced ::
  "string list \<Rightarrow> nat \<Rightarrow> string \<Rightarrow> docBlocks \<times> string list \<Rightarrow> docBlocks \<times> string list \<times> bool" where
  "trackDocTraced lines i l bc =
    (case bc of (b, cur) \<Rightarrow>
     (let trimmed = trim l in
      if startsWith trimmed ''/**'' then
        (if endsWith trimmed ''*/'' then
           ((if \<not> includesStr trimmed ''@module'' then associateExport lines i trimmed b else b),
            cur, False)
         else (b, [trimmed], False))
      else if cur \<noteq> [] then
        (let cur' = cur @ [l] in
         if endsWith trimmed ''*/'' then
           (let doc = joinWith [newline] cur' in
            if includesStr doc ''@module'' then (b, [], True)
            else (associateExport lines i doc b, [], False))
         else (b, cur', False))
      else (b, cur, False)))"

definition declKeywords :: "string list" where
  "declKeywords = [''class'', ''function'', ''const'', ''let'', ''var'', ''interface'', ''type'', ''enum'']"

definition startsDeclarationOf :: "string \<Rightarrow> string \<Rightarrow> bool" where
  "startsDeclarationOf trimmed n = list_ex (\<lambda>kw. startsWith trimmed (kw @ '' '' @ n)) declKeywords"

definition renamed :: "ExportedSymbol option \<Rightarrow> TracedExport \<Rightarrow> ExportedSymbol list" where
  "renamed symbol te = (case symbol of None \<Rightarrow> [] | Some s \<Rightarrow> [s\<lparr>name := exportedName te\<rparr>])"

text \<open>The symbols that line \<open>i\<close> adds to the output.\<close>

definition symbolsAtLine ::
  "string list \<Rightarrow> nat \<Rightarrow> string \<Rightarrow> string \<Rightarrow> string \<Rightarrow> TracedExport list \<Rightarrow> docBlocks
    \<Rightarrow> ExportedSymbol list" where
  "symbolsAtLine lines i trimmed srcPath relativePath sourceExports b =
    (if isDirectExport trimmed then
       (let fullDeclaration = gatherDeclaration lines i trimmed in
        case extractExportName fullDeclaration of
          None \<Rightarrow> []
        | Some lineExportName \<Rightarrow>
            if lineExportName = [] then []
            else
              (case find (\<lambda>te. originalName te = lineExportName \<and> sourcePath te = srcPath)
                      sourceExports of
                 None \<Rightarrow> []
               | Some te \<Rightarrow> renamed (parseExportedSymbol fullDeclaration i relativePath b) te))
     else
       concat (map (\<lambda>te.
         if startsDeclarationOf trimmed (originalName te)
         then renamed (parseExportedSymbol (gatherDeclaration lines i trimmed) i relativePath b) te
         else []) sourceExports))"

definition scanStepTraced ::
  "string list \<Rightarrow> string \<Rightarrow> string \<Rightarrow> TracedExport list \<Rightarrow> nat \<times> string \<Rightarrow> scanState \<Rightarrow> scanState" where
  "scanStepTraced lines srcPath relativePath sourceExports il s =
    (case il of (i, l) \<Rightarrow>
     (case trackDocTraced lines i l (jsDocBlocks s, currentJSDoc s) of (b, cur, skip) \<Rightarrow>
        if skip then s\<lparr>jsDocBlocks := b, currentJSDoc := cur\<rparr>
        else s\<lparr>jsDocBlocks := b, currentJSDoc := cur,
               collected := collected s
                 @ symbolsAtLine lines i (trim l) srcPath relativePath sourceExports b\<rparr>))"

definition scanTraced ::
  "string list \<Rightarrow> string \<Rightarrow> string \<Rightarrow> TracedExport list \<Rightarrow> ExportedSymbol list \<Rightarrow> scanState" where
  "scanTraced lines srcPath relativePath sourceExports syms =
    fold (scanStepTraced lines srcPath relativePath sourceExports) (enumerate 0 lines)
      \<lparr>jsDocBlocks = Map.empty, currentJSDoc = [], collected = syms\<rparr>"

text \<open>
  The two keys of deduplication: \<^verbatim>\<open>analyzeFromExports\<close> keeps the first traced export
  of every key \<^verbatim>\<open>sourcePath:originalName:exportedName\<close>, and \<^verbatim>\<open>analyzeFileForJSDoc\<close>
  then skips every export whose key \<^verbatim>\<open>sourcePath:exportedName:originalName\<close> it has seen.
\<close>

definition uniqueKey :: "TracedExport \<Rightarrow> string" where
  "uniqueKey te = sourcePath te @ '':'' @ originalName te @ '':'' @ exportedName te"

definition seenKey :: "TracedExport \<Rightarrow> string" where
  "seenKey te = sourcePath te @ '':'' @ exportedName te @ '':'' @ originalName te"

definition uniqueStep :: "TracedExport \<Rightarrow> (string \<times> TracedExport) list \<Rightarrow> (string \<times> TracedExport) list" where
  "uniqueStep te u = (if map_of u (uniqueKey te) = None then u @ [(uniqueKey te, te)] else u)"

definition uniqueExports :: "(string \<times> TracedExport list) list \<Rightarrow> TracedExport list" where
  "uniqueExports m = map snd (fold uniqueStep (concat (map snd m)) [])"

definition groupStep ::
  "TracedExport \<Rightarrow> string list \<times> (string \<times> TracedExport list) list
    \<Rightarrow> string list \<times> (string \<times> TracedExport list) list" where
  "groupStep te sg =
    (case sg of (seenExports, exportsBySource) \<Rightarrow>
       if seenKey te \<in> set seenExports then (seenExports, exportsBySource)
       else (seenExports @ [seenKey te],
             AList.update (sourcePath te) (bucket exportsBySource (sourcePath te) @ [te])
               exportsBySource))"

definition exportsBySource :: "TracedExport list \<Rightarrow> (string \<times> TracedExport list) list" where
  "exportsBySource exps = snd (fold groupStep exps ([], []))"

definition analyzeSource :: "env \<Rightarrow> string \<Rightarrow> string \<times> TracedExport list \<Rightarrow> ExportedSymbol list \<Rightarrow> ExportedSymbol list" where
  "analyzeSource E rootPath g syms =
    (case g of (srcPath, sourceExports) \<Rightarrow>
       (case readTextFile E srcPath of
          Inl e \<Rightarrow> syms
        | Inr content \<Rightarrow>
            collected (scanTraced (splitLines content) srcPath (relative E rootPath srcPath)
                         sourceExports syms)))"

definition analyzeFileForJSDoc ::
  "env \<Rightarrow> TracedExport list \<Rightarrow> ExportedSymbol list \<Rightarrow> string \<Rightarrow> ExportedSymbol list" where
  "analyzeFileForJSDoc E exps syms rootPath = fold (analyzeSource E rootPath) (exportsBySource exps) syms"

fun traceEntryPoints :: "env \<Rightarrow> string \<Rightarrow> string list \<Rightarrow> traceState \<Rightarrow> traceState option" where
  "traceEntryPoints E rootPath [] st = Some st"
| "traceEntryPoints E rootPath (exportPath # ps) st =
     (case traceExportsFromFile E (join E rootPath exportPath) st of
        None \<Rightarrow> None
      | Some st' \<Rightarrow> traceEntryPoints E rootPath ps st')"

text \<open>
  The values of an \<^verbatim>\<open>exports\<close> object are taken in the order of \<^verbatim>\<open>Object.values\<close>,
  which is the order of the list.
\<close>

definition exportPaths :: "ExportsField \<Rightarrow> string list" where
  "exportPaths ex = (case ex of ExportsString s \<Rightarrow> [s] | ExportsRecord kvs \<Rightarrow> map snd kvs)"

definition analyzeFromExports ::
  "env \<Rightarrow> string \<Rightarrow> ExportsField \<Rightarrow> ExportedSymbol list \<Rightarrow> traceState \<Rightarrow> ExportedSymbol list option" where
  "analyzeFromExports E rootPath ex syms st =
    (case traceEntryPoints E rootPath (exportPaths ex) st of
       None \<Rightarrow> None
     | Some st' \<Rightarrow> Some (analyzeFileForJSDoc E (uniqueExports (exportMap st')) syms rootPath))"

subsection \<open>Full-scan mode: \<^verbatim>\<open>analyzeFile\<close>\<close>

definition trackDocFull ::
  "string list \<Rightarrow> nat \<Rightarrow> string \<Rightarrow> docBlocks \<times> string list \<Rightarrow> docBlocks \<times> string list" where
  "trackDocFull lines i l bc =
    (case bc of (b, cur) \<Rightarrow>
     (let trimmed = trim l in
      if startsWith trimmed ''/**'' then
        (if endsWith trimmed ''*/'' then (associateNext lines i trimmed b, cur)
         else (b, [trimmed]))
      else if cur \<noteq> [] then
        (let cur' = cur @ [l] in
         if endsWith trimmed ''*/'' then (associateNext lines i (joinWith [newline] cur') b, [])
         else (b, cur'))
      else (b, cur)))"

definition scanStepFull :: "string list \<Rightarrow> string \<Rightarrow> nat \<times> string \<Rightarrow> scanState \<Rightarrow> scanState" where
  "scanStepFull lines relativePath il s =
    (case il of (i, l) \<Rightarrow>
     (case trackDocFull lines i l (jsDocBlocks s, currentJSDoc s) of (b, cur) \<Rightarrow>
        s\<lparr>jsDocBlocks := b, currentJSDoc := cur,
          collected := collected s @
            (if isExportLine (trim l)
             then (case parseExportedSymbol (trim l) i relativePath b of None \<Rightarrow> [] | Some y \<Rightarrow> [y])
             else [])\<rparr>))"

definition scanFull :: "string list \<Rightarrow> string \<Rightarrow> ExportedSymbol list \<Rightarrow> scanState" where
  "scanFull lines relativePath syms =
    fold (scanStepFull lines relativePath) (enumerate 0 lines)
      \<lparr>jsDocBlocks = Map.empty, currentJSDoc = [], collected = syms\<rparr>"

definition analyzeFile :: "env \<Rightarrow> string \<Rightarrow> ExportedSymbol list \<Rightarrow> string \<Rightarrow> error + ExportedSymbol list" where
  "analyzeFile E filePath syms rootPath =
    (case readTextFile E filePath of
       Inl e \<Rightarrow> Inl e
     | Inr content \<Rightarrow>
         (case stat E rootPath of
            Inl e \<Rightarrow> Inl e
          | Inr k \<Rightarrow>
              (let relativePath = (if k = IsFile then relative E (cwd E) filePath
                                   else relative E rootPath filePath)
               in Inr (collected (scanFull (splitLines content) relativePath syms)))))"

definition validExts :: "string list" where
  "validExts = [''.ts'', ''.tsx'', ''.js'', ''.jsx'', ''.mjs'']"

text \<open>
  \<^verbatim>\<open>findSourceFiles\<close>: the walk of a directory, with its allow-list of extensions and
  its exclusions, is the library's and is a parameter of the environment.
\<close>

definition findSourceFiles :: "env \<Rightarrow> string \<Rightarrow> error + string list" where
  "findSourceFiles E rootPath =
    (case stat E rootPath of
       Inl e \<Rightarrow> Inl e
     | Inr IsFile \<Rightarrow> Inr (if list_ex (endsWith rootPath) validExts then [rootPath] else [])
     | Inr IsDirectory \<Rightarrow> Inr (walk E rootPath))"

fun analyzeEach :: "env \<Rightarrow> string \<Rightarrow> string list \<Rightarrow> ExportedSymbol list \<Rightarrow> error + ExportedSymbol list" where
  "analyzeEach E rootPath [] syms = Inr syms"
| "analyzeEach E rootPath (f # fs) syms =
     (case analyzeFile E f syms rootPath of
        Inl e \<Rightarrow> Inl e
      | Inr syms' \<Rightarrow> analyzeEach E rootPath fs syms')"

definition analyzeAllFiles :: "env \<Rightarrow> string \<Rightarrow> ExportedSymbol list \<Rightarrow> error + ExportedSymbol list" where
  "analyzeAllFiles E rootPath syms =
    (case findSourceFiles E rootPath of
       Inl e \<Rightarrow> Inl e
     | Inr fs \<Rightarrow> analyzeEach E rootPath fs syms)"

section \<open>Configuration and \<^verbatim>\<open>analyzeDirectory\<close>\<close>

text \<open>
  \<^verbatim>\<open>JSON.parse\<close> is the runtime's: \<open>jsonParse\<close> is \<open>None\<close> when it throws,
  \<open>Some None\<close> when the value is \<^verbatim>\<open>null\<close>, and otherwise the parsed value as seen
  through the \<^verbatim>\<open>exports\<close> field, the only field the analyser reads. For \<^verbatim>\<open>deno.jsonc\<close> the comments are removed first: every line is cut
  at its first \<^verbatim>\<open>//\<close>, and every \<^verbatim>\<open>/* ... */\<close> is deleted.
\<close>

fun cutLineComment :: "string \<Rightarrow> string" where
  "cutLineComment [] = []"
| "cutLineComment (c # cs) = (if startsWith (c # cs) ''//'' then [] else c # cutLineComment cs)"

fun afterClose :: "string \<Rightarrow> string option" where
  "afterClose [] = None"
| "afterClose (c # cs) = (if startsWith (c # cs) ''*/'' then Some (drop 1 cs) else afterClose cs)"

lemma afterClose_shorter: "afterClose s = Some r \<Longrightarrow> length r < length s"
  by (induction s) (auto split: if_splits)

function stripBlockComments :: "string \<Rightarrow> string" where
  "stripBlockComments [] = []"
| "stripBlockComments (c # cs) =
     (if startsWith (c # cs) ''/*'' then
        (case afterClose (drop 1 cs) of
           Some rest \<Rightarrow> stripBlockComments rest
         | None \<Rightarrow> c # stripBlockComments cs)
      else c # stripBlockComments cs)"
  by pat_completeness auto
termination
proof (relation "measure length")
  show "wf (measure length)" by simp
next
  fix c cs rest
  assume "afterClose (drop 1 cs) = Some rest"
  then have "length rest < length (drop 1 cs)" by (rule afterClose_shorter)
  then show "(rest, c # cs) \<in> measure length" by simp
qed simp_all

definition stripJsonc :: "string \<Rightarrow> string" where
  "stripJsonc configContent =
    stripBlockComments (joinWith [newline] (map cutLineComment (splitLines configContent)))"

definition loadDenoConfig :: "env \<Rightarrow> string \<Rightarrow> error + DenoConfig option" where
  "loadDenoConfig E rootPath0 =
    (case stat E rootPath0 of
       Inl e \<Rightarrow> Inl e
     | Inr k \<Rightarrow>
         (let rootPath = (if k = IsFile then dirname E rootPath0 else rootPath0) in
          case bindO (case readTextFile E (join E rootPath ''deno.json'') of
                        Inl e \<Rightarrow> None | Inr c \<Rightarrow> Some c) (jsonParse E) of
            Some config \<Rightarrow> Inr config
          | None \<Rightarrow>
              (case bindO (case readTextFile E (join E rootPath ''deno.jsonc'') of
                             Inl e \<Rightarrow> None | Inr c \<Rightarrow> Some c)
                      (\<lambda>c. jsonParse E (stripJsonc c)) of
                 Some config \<Rightarrow> Inr config
               | None \<Rightarrow> Inr None)))"

record AnalysisResult =
  path :: string
  hasDenoJson :: bool
  hasExports :: bool
  exportPath :: "string option"
  symbols :: "ExportedSymbol list"
  stats :: DocumentationStats

text \<open>The truth value of \<^verbatim>\<open>denoConfig?.exports\<close>: an empty string counts as absent.\<close>

definition truthy :: "ExportsField option \<Rightarrow> bool" where
  "truthy ex = (case ex of None \<Rightarrow> False | Some (ExportsString s) \<Rightarrow> s \<noteq> []
     | Some (ExportsRecord kvs) \<Rightarrow> True)"

definition configExports :: "DenoConfig option \<Rightarrow> ExportsField option" where
  "configExports denoConfig = (case denoConfig of None \<Rightarrow> None | Some c \<Rightarrow> exports c)"

definition exportPathOf :: "ExportsField option \<Rightarrow> string option" where
  "exportPathOf ex =
    (case ex of
       Some (ExportsString s) \<Rightarrow> Some s
     | Some (ExportsRecord kvs) \<Rightarrow> (case map snd kvs of [] \<Rightarrow> None | v # vs \<Rightarrow> Some v)
     | None \<Rightarrow> None)"

definition emptyTrace :: traceState where
  "emptyTrace = \<lparr>analyzedFiles = {}, exportMap = []\<rparr>"

definition mkResult :: "string \<Rightarrow> DenoConfig option \<Rightarrow> ExportedSymbol list \<Rightarrow> AnalysisResult" where
  "mkResult rootPath denoConfig syms =
    \<lparr>path = rootPath, hasDenoJson = (denoConfig \<noteq> None),
     hasExports = truthy (configExports denoConfig),
     exportPath = exportPathOf (configExports denoConfig),
     symbols = syms, stats = calculateStats syms\<rparr>"

text \<open>
  The result of a run: \<open>None\<close> if the run does not return, \<open>Some (Inl e)\<close> if it
  throws \<open>e\<close>, \<open>Some (Inr r)\<close> if it returns \<open>r\<close>.
\<close>

definition analyzeDirectory :: "env \<Rightarrow> string \<Rightarrow> (error + AnalysisResult) option" where
  "analyzeDirectory E targetPath =
    (let rootPath = resolve E targetPath in
     case loadDenoConfig E rootPath of
       Inl e \<Rightarrow> Some (Inl e)
     | Inr denoConfig \<Rightarrow>
         if truthy (configExports denoConfig) then
           (case configExports denoConfig of
              None \<Rightarrow> Some (Inr (mkResult rootPath denoConfig []))
            | Some ex \<Rightarrow>
                (case analyzeFromExports E rootPath ex [] emptyTrace of
                   None \<Rightarrow> None
                 | Some syms \<Rightarrow> Some (Inr (mkResult rootPath denoConfig syms))))
         else
           (case analyzeAllFiles E rootPath [] of
              Inl e \<Rightarrow> Some (Inl e)
            | Inr syms \<Rightarrow> Some (Inr (mkResult rootPath denoConfig syms))))"

section \<open>Notions used in the statements\<close>

text \<open>
  The paths that module resolution can return: \<^verbatim>\<open>resolveImportPath\<close> returns
  \<^verbatim>\<open>resolve(p)\<close> only for a path \<open>p\<close> that \<^verbatim>\<open>Deno.stat\<close> accepts.
\<close>

definition resolvable :: "env \<Rightarrow> string set" where
  "resolvable E = set (map (resolve E) (map fst (files E) @ dirs E))"

section \<open>Concrete inputs\<close>

text \<open>A symbol record with a given documentation flag, and lists of such symbols.\<close>

definition aSymbol :: "bool \<Rightarrow> ExportedSymbol" where
  "aSymbol d = \<lparr>name = ''f'', type = Function, file' = ''a.ts'', line = 1, hasJSDoc = d,
     jsDocContent = None, exportType = Named\<rparr>"

definition symbols200of201 :: "ExportedSymbol list" where
  "symbols200of201 = replicate 200 (aSymbol True) @ [aSymbol False]"

definition symbols1of3 :: "ExportedSymbol list" where
  "symbols1of3 = [aSymbol False, aSymbol True, aSymbol False]"

definition symbols299of300 :: "ExportedSymbol list" where
  "symbols299of300 = aSymbol False # replicate 299 (aSymbol True)"

text \<open>
  Environments for concrete runs. Their path functions serve absolute paths under a root
  and module specifiers of the form \<^verbatim>\<open>./name\<close>; their \<^verbatim>\<open>JSON.parse\<close> returns a
  fixed configuration; no symbol name in them needs the regular-expression engine.
\<close>

definition joinPath :: "string \<Rightarrow> string \<Rightarrow> string" where
  "joinPath d p = (if startsWith p ''./'' then d @ ''/'' @ drop 2 p else d @ ''/'' @ p)"

fun dropToSlash :: "string \<Rightarrow> string" where
  "dropToSlash [] = []"
| "dropToSlash (c # cs) = (if c = CHR ''/'' then cs else dropToSlash cs)"

definition dirnamePath :: "string \<Rightarrow> string" where
  "dirnamePath p = rev (dropToSlash (rev p))"

definition relativePath :: "string \<Rightarrow> string \<Rightarrow> string" where
  "relativePath d p = (if startsWith p (d @ ''/'') then drop (length d + 1) p else p)"

definition testEnv :: "(string \<times> string) list \<Rightarrow> DenoConfig option \<Rightarrow> env" where
  "testEnv fs cfg =
    \<lparr>files = fs, dirs = [''/r''], join = joinPath, dirname = dirnamePath, resolve = (\<lambda>p. p),
     relative = relativePath, cwd = ''/r'', walk = (\<lambda>p. map fst fs),
     jsonParse = (\<lambda>c. Some cfg), regexpValid = (\<lambda>s. True), regexpTest = (\<lambda>s l. False)\<rparr>"

definition quote :: "string \<Rightarrow> string" where
  "quote s = [dquote] @ s @ [dquote]"

definition fileText :: "string list \<Rightarrow> string" where
  "fileText ls = joinWith [newline] ls"

definition tripleOf :: "TracedExport \<Rightarrow> string \<times> string \<times> string" where
  "tripleOf te = (sourcePath te, originalName te, exportedName te)"

definition tracedOf :: "TracedExport \<Rightarrow> string \<times> string \<times> string \<times> nat" where
  "tracedOf te = (originalName te, exportedName te, sourcePath te, TracedExport.line te)"

definition symbolAt :: "ExportedSymbol \<Rightarrow> string \<times> string \<times> nat" where
  "symbolAt s = (name s, file' s, line s)"

definition symbolDoc :: "ExportedSymbol \<Rightarrow> string \<times> SymbolType \<times> bool" where
  "symbolDoc s = (name s, type s, hasJSDoc s)"

text \<open>The traced exports that a run in public-API mode hands to \<^verbatim>\<open>analyzeFileForJSDoc\<close>.\<close>

definition tracedUnique :: "env \<Rightarrow> string \<Rightarrow> ExportsField \<Rightarrow> TracedExport list option" where
  "tracedUnique E rootPath ex =
    map_option (\<lambda>st. uniqueExports (exportMap st)) (traceEntryPoints E rootPath (exportPaths ex) emptyTrace)"

text \<open>
  Two chains to one declaration: \<^verbatim>\<open>mod.ts\<close> re-exports everything from \<^verbatim>\<open>m.ts\<close>
  and from \<^verbatim>\<open>a.ts\<close>, which re-exports everything from \<^verbatim>\<open>m.ts\<close>.
\<close>

definition twoChains :: env where
  "twoChains = testEnv
    [(''/r/mod.ts'', fileText [''export * from '' @ quote ''./m.ts'', ''export * from '' @ quote ''./a.ts'']),
     (''/r/a.ts'', fileText [''export * from '' @ quote ''./m.ts'']),
     (''/r/m.ts'', fileText [''const foo = 1;'', ''const fooBar = 2;'', ''export { foo };''])]
    None"

text \<open>A renaming re-export after a re-export of everything from the same module.\<close>

definition renameAfterStar :: env where
  "renameAfterStar = testEnv
    [(''/r/mod.ts'', fileText [''export * from '' @ quote ''./m.ts'',
                               ''export { foo as bar } from '' @ quote ''./m.ts'']),
     (''/r/m.ts'', fileText [''export function foo() {}''])]
    None"

text \<open>A renaming re-export of a declaration on the second line of its module.\<close>

definition renameOnly :: env where
  "renameOnly = testEnv
    [(''/r/mod.ts'', fileText [''export { foo as bar } from '' @ quote ''./m.ts'']),
     (''/r/m.ts'', fileText [''// helpers'', ''export function foo() {}''])]
    None"

text \<open>A re-export of a name that its module does not declare.\<close>

definition noDeclaration :: env where
  "noDeclaration = testEnv
    [(''/r/mod.ts'', fileText [''// entry'', ''export { foo } from '' @ quote ''./m.ts'']),
     (''/r/m.ts'', fileText [''export const other = 1;''])]
    None"

text \<open>Two files that re-export everything from each other.\<close>

definition cycle :: env where
  "cycle = testEnv
    [(''/r/a.ts'', fileText [''export * from '' @ quote ''./b.ts'', ''export const a = 1;'']),
     (''/r/b.ts'', fileText [''export * from '' @ quote ''./a.ts'', ''export const b = 2;''])]
    None"

text \<open>A configuration that names an entry file which does not exist.\<close>

definition missingEntryConfig :: DenoConfig where
  "missingEntryConfig = \<lparr>exports = Some (ExportsString ''./mod.ts'')\<rparr>"

definition missingEntry :: env where
  "missingEntry = testEnv [(''/r/deno.json'', ''{}'')] (Some missingEntryConfig)"

text \<open>A configuration with two entry points, of which only the first exists.\<close>

definition twoEntriesConfig :: DenoConfig where
  "twoEntriesConfig = \<lparr>exports = Some (ExportsRecord [(''.'', ''./mod.ts''), (''./x'', ''./x.ts'')])\<rparr>"

definition twoEntries :: env where
  "twoEntries = testEnv
    [(''/r/deno.json'', ''{}''),
     (''/r/mod.ts'', fileText [''export const a = 1;''])]
    (Some twoEntriesConfig)"

text \<open>A module-level documentation block directly before an exported function.\<close>

definition moduleDoc :: env where
  "moduleDoc = testEnv
    [(''/r/x.ts'', fileText [''/** @module */'', ''export function foo() {}''])]
    None"

text \<open>A block export of two names, the second renamed.\<close>

definition blockExport :: env where
  "blockExport = testEnv
    [(''/r/x.ts'', fileText [''const a = 1;'', ''const b = 2;'', ''export { a, b as c };''])]
    None"

text \<open>An export table in which three buckets hold the same traced export.\<close>

definition fooExport :: TracedExport where
  "fooExport = \<lparr>originalName = ''foo'', exportedName = ''foo'', sourcePath = ''/r/m.ts'', line = 1\<rparr>"

definition threeBuckets :: "(string \<times> TracedExport list) list" where
  "threeBuckets = [(''/r/m.ts'', [fooExport]), (''/r/mod.ts'', [fooExport]), (''/r/a.ts'', [fooExport])]"

section \<open>Properties of the statistics\<close>

subsection \<open>Rounding to a double: exponent, error and monotonicity\<close>

lemma pow2_pos: "0 < pow2 e"
  by (simp add: pow2_def)

lemma pow2_add: "pow2 (a + b) = pow2 a * pow2 b"
  by (simp add: pow2_def power_int_add)

lemma pow2_nat: "pow2 (int n) = 2 ^ n"
  by (simp add: pow2_def)

lemma pow2_mono: "a \<le> b \<Longrightarrow> pow2 a \<le> pow2 b"
  by (simp add: pow2_def power_int_increasing)

lemma pow2_diff: "pow2 (a - b) = pow2 a / pow2 b"
  by (simp add: pow2_def power_int_diff)

lemma ilog2_bounds:
  assumes "0 < x"
  shows "pow2 (ilog2 x) \<le> x \<and> x < pow2 (ilog2 x + 1)"
proof -
  obtain p q where pq: "quotient_of x = (p, q)" by (cases "quotient_of x")
  have q: "0 < q" using quotient_of_denom_pos [OF pq] .
  have x: "x = of_int p / of_int q" using quotient_of_div [OF pq] .
  have p: "0 < p" using assms q x by (simp add: zero_less_divide_iff)
  define bp where "bp = bitlen p"
  define bq where "bq = bitlen q"
  have bp1: "1 \<le> bp" and bq1: "1 \<le> bq"
    using p q bitlen_eq_zero_iff [of p] bitlen_eq_zero_iff [of q] bitlen_nonneg [of p] bitlen_nonneg [of q]
    by (auto simp: bp_def bq_def)
  have Bp: "2 ^ nat (bp - 1) \<le> p" "p < 2 ^ nat bp"
    using bitlen_bounds [OF p] by (auto simp: bp_def)
  have Bq: "2 ^ nat (bq - 1) \<le> q" "q < 2 ^ nat bq"
    using bitlen_bounds [OF q] by (auto simp: bq_def)
  have Pp: "pow2 (bp - 1) \<le> of_int p" "of_int p < pow2 bp"
  proof -
    have "pow2 (bp - 1) = of_int (2 ^ nat (bp - 1))" using bp1 pow2_nat [of "nat (bp - 1)"] by simp
    then show "pow2 (bp - 1) \<le> of_int p" using Bp(1) by (simp only: of_int_le_iff)
    have "pow2 bp = of_int (2 ^ nat bp)" using bp1 pow2_nat [of "nat bp"] by simp
    then show "of_int p < pow2 bp" using Bp(2) by (simp only: of_int_less_iff)
  qed
  have Pq: "pow2 (bq - 1) \<le> of_int q" "of_int q < pow2 bq"
  proof -
    have "pow2 (bq - 1) = of_int (2 ^ nat (bq - 1))" using bq1 pow2_nat [of "nat (bq - 1)"] by simp
    then show "pow2 (bq - 1) \<le> of_int q" using Bq(1) by (simp only: of_int_le_iff)
    have "pow2 bq = of_int (2 ^ nat bq)" using bq1 pow2_nat [of "nat bq"] by simp
    then show "of_int q < pow2 bq" using Bq(2) by (simp only: of_int_less_iff)
  qed
  have qpos: "(0::rat) < of_int q" using q by simp
  have up: "x < pow2 (bp - bq + 1)"
  proof -
    have "pow2 (bp - bq + 1) * pow2 (bq - 1) = pow2 bp"
      by (simp add: pow2_add [symmetric])
    then have "of_int p < pow2 (bp - bq + 1) * pow2 (bq - 1)" using Pp(2) by simp
    also have "\<dots> \<le> pow2 (bp - bq + 1) * of_int q"
      using Pq(1) pow2_pos [of "bp - bq + 1"] by (simp add: mult_left_mono)
    finally show ?thesis using qpos by (simp add: x pos_divide_less_eq)
  qed
  have lo: "pow2 (bp - bq - 1) < x"
  proof -
    have "pow2 (bp - bq - 1) * pow2 bq = pow2 (bp - 1)"
      by (simp add: pow2_add [symmetric])
    have "pow2 (bp - bq - 1) * of_int q < pow2 (bp - bq - 1) * pow2 bq"
      using Pq(2) pow2_pos [of "bp - bq - 1"] by (simp add: mult_strict_left_mono)
    also have "\<dots> = pow2 (bp - 1)" by (simp add: pow2_add [symmetric])
    also have "\<dots> \<le> of_int p" by (rule Pp(1))
    finally show ?thesis using qpos by (simp add: x pos_less_divide_eq)
  qed
  show ?thesis
  proof (cases "pow2 (bp - bq) \<le> x")
    case True
    then have "ilog2 x = bp - bq" by (simp add: ilog2_def pq bp_def bq_def Let_def)
    then show ?thesis using True up by simp
  next
    case False
    then have "ilog2 x = bp - bq - 1" by (simp add: ilog2_def pq bp_def bq_def Let_def)
    then show ?thesis using False lo by simp
  qed
qed

lemma roundHalfEven_err: "\<bar>of_int (roundHalfEven r) - r\<bar> \<le> 1 / 2"
proof -
  have a: "of_int \<lfloor>r\<rfloor> \<le> r" and b: "r < of_int \<lfloor>r\<rfloor> + 1" by linarith+
  show ?thesis using a b unfolding roundHalfEven_def Let_def
    by (auto simp: abs_le_iff)
qed

lemma roundHalfEven_mono: "r \<le> s \<Longrightarrow> roundHalfEven r \<le> roundHalfEven s"
proof -
  assume rs: "r \<le> s"
  have fl: "\<lfloor>r\<rfloor> \<le> \<lfloor>s\<rfloor>" using rs by (rule floor_mono)
  have lo: "\<lfloor>s\<rfloor> \<le> roundHalfEven s" and hi: "roundHalfEven r \<le> \<lfloor>r\<rfloor> + 1"
    by (auto simp: roundHalfEven_def Let_def)
  show ?thesis
  proof (cases "\<lfloor>r\<rfloor> = \<lfloor>s\<rfloor>")
    case True
    then show ?thesis using rs by (auto simp: roundHalfEven_def Let_def)
  next
    case False
    then show ?thesis using fl lo hi by linarith
  qed
qed

lemma roundHalfEven_int: "roundHalfEven (of_int n) = n"
  by (simp add: roundHalfEven_def)

lemma pow2_split: "pow2 e = 2 ^ n * pow2 (e - int n)"
  using pow2_add [of "int n" "e - int n"] pow2_nat [of n] by simp

lemma toDoublePos_err:
  assumes "0 < x"
  shows "\<bar>toDoublePos x - x\<bar> \<le> x * pow2 (- 53)"
proof -
  define e where "e = ilog2 x - 52"
  define m where "m = roundHalfEven (x / pow2 e)"
  have pe: "0 < pow2 e" by (rule pow2_pos)
  have "\<bar>of_int m - x / pow2 e\<bar> \<le> 1 / 2" unfolding m_def by (rule roundHalfEven_err)
  then have "\<bar>of_int m - x / pow2 e\<bar> * pow2 e \<le> 1 / 2 * pow2 e"
    using pe by (simp add: mult_right_mono)
  moreover have "\<bar>of_int m - x / pow2 e\<bar> * pow2 e = \<bar>of_int m * pow2 e - x\<bar>"
  proof -
    have "\<bar>of_int m - x / pow2 e\<bar> * pow2 e = \<bar>(of_int m - x / pow2 e) * pow2 e\<bar>"
      using pe by (simp add: abs_mult)
    also have "(of_int m - x / pow2 e) * pow2 e = of_int m * pow2 e - x"
      using pe by (simp add: field_simps)
    finally show ?thesis .
  qed
  ultimately have A: "\<bar>of_int m * pow2 e - x\<bar> \<le> 1 / 2 * pow2 e" by simp
  have "pow2 (ilog2 x) * pow2 (- 53) = pow2 (e - 1)"
    by (simp add: pow2_add [symmetric] e_def)
  also have "\<dots> = pow2 e / pow2 1" by (rule pow2_diff)
  also have "pow2 1 = 2" by (simp add: pow2_def)
  finally have B: "1 / 2 * pow2 e = pow2 (ilog2 x) * pow2 (- 53)" by simp
  have C: "pow2 (ilog2 x) * pow2 (- 53) \<le> x * pow2 (- 53)"
    using ilog2_bounds [OF assms] pow2_pos [of "- 53"] by (simp add: mult_right_mono)
  have D: "toDoublePos x = of_int m * pow2 e"
    by (simp add: toDoublePos_def Let_def e_def m_def)
  show ?thesis unfolding D using A B C by linarith
qed

lemma scaled_bounds:
  assumes "0 < x"
  shows "2 ^ 52 \<le> x / pow2 (ilog2 x - 52)" "x / pow2 (ilog2 x - 52) < 2 ^ 53"
proof -
  have pe: "0 < pow2 (ilog2 x - 52)" by (rule pow2_pos)
  have a: "pow2 (ilog2 x) = 2 ^ 52 * pow2 (ilog2 x - 52)"
    using pow2_split [of "ilog2 x" 52] by simp
  have b: "pow2 (ilog2 x + 1) = 2 ^ 53 * pow2 (ilog2 x - 52)"
    using pow2_split [of "ilog2 x + 1" 53] by simp
  show "2 ^ 52 \<le> x / pow2 (ilog2 x - 52)"
    using ilog2_bounds [OF assms] pe a by (simp add: pos_le_divide_eq)
  show "x / pow2 (ilog2 x - 52) < 2 ^ 53"
    using ilog2_bounds [OF assms] pe b by (simp add: pos_divide_less_eq)
qed

lemma mantissa_bounds:
  assumes "0 < x"
  shows "2 ^ 52 \<le> roundHalfEven (x / pow2 (ilog2 x - 52))"
    "roundHalfEven (x / pow2 (ilog2 x - 52)) \<le> 2 ^ 53"
proof -
  have "roundHalfEven (of_int (2 ^ 52)) \<le> roundHalfEven (x / pow2 (ilog2 x - 52))"
    using scaled_bounds(1) [OF assms] by (intro roundHalfEven_mono) simp
  then show "2 ^ 52 \<le> roundHalfEven (x / pow2 (ilog2 x - 52))"
    by (simp only: roundHalfEven_int)
  have "roundHalfEven (x / pow2 (ilog2 x - 52)) \<le> roundHalfEven (of_int (2 ^ 53))"
    using scaled_bounds(2) [OF assms] by (intro roundHalfEven_mono) simp
  then show "roundHalfEven (x / pow2 (ilog2 x - 52)) \<le> 2 ^ 53"
    by (simp only: roundHalfEven_int)
qed

lemma toDoublePos_bounds:
  assumes "0 < x"
  shows "pow2 (ilog2 x) \<le> toDoublePos x" "toDoublePos x \<le> pow2 (ilog2 x + 1)"
proof -
  let ?e = "ilog2 x - 52"
  let ?m = "roundHalfEven (x / pow2 ?e)"
  have pe: "0 < pow2 ?e" by (rule pow2_pos)
  have a: "pow2 (ilog2 x) = 2 ^ 52 * pow2 ?e"
    using pow2_split [of "ilog2 x" 52] by simp
  have b: "pow2 (ilog2 x + 1) = 2 ^ 53 * pow2 ?e"
    using pow2_split [of "ilog2 x + 1" 53] by simp
  have "(of_int (2 ^ 52) :: rat) \<le> of_int ?m"
    using mantissa_bounds(1) [OF assms] by (simp only: of_int_le_iff)
  then have "2 ^ 52 * pow2 ?e \<le> of_int ?m * pow2 ?e"
    using pe by (simp add: mult_right_mono)
  then show "pow2 (ilog2 x) \<le> toDoublePos x"
    by (simp add: toDoublePos_def Let_def a)
  have "(of_int ?m :: rat) \<le> of_int (2 ^ 53)"
    using mantissa_bounds(2) [OF assms] by (simp only: of_int_le_iff)
  then have "of_int ?m * pow2 ?e \<le> 2 ^ 53 * pow2 ?e"
    using pe by (simp add: mult_right_mono)
  then show "toDoublePos x \<le> pow2 (ilog2 x + 1)"
    by (simp add: toDoublePos_def Let_def b)
qed

lemma ilog2_mono:
  assumes "0 < x" "x \<le> y"
  shows "ilog2 x \<le> ilog2 y"
proof (rule ccontr)
  assume "\<not> ilog2 x \<le> ilog2 y"
  then have "ilog2 y + 1 \<le> ilog2 x" by simp
  then have "pow2 (ilog2 y + 1) \<le> pow2 (ilog2 x)" by (rule pow2_mono)
  moreover have "0 < y" using assms by simp
  ultimately show False using ilog2_bounds [OF assms(1)] ilog2_bounds [OF \<open>0 < y\<close>] assms(2)
    by linarith
qed

lemma toDoublePos_mono:
  assumes "0 < x" "x \<le> y"
  shows "toDoublePos x \<le> toDoublePos y"
proof -
  have y: "0 < y" using assms by simp
  show ?thesis
  proof (cases "ilog2 x = ilog2 y")
    case True
    have pe: "0 < pow2 (ilog2 y - 52)" by (rule pow2_pos)
    have "x / pow2 (ilog2 y - 52) \<le> y / pow2 (ilog2 y - 52)"
      using assms(2) pe by (simp add: divide_right_mono)
    then have "roundHalfEven (x / pow2 (ilog2 y - 52)) \<le> roundHalfEven (y / pow2 (ilog2 y - 52))"
      by (rule roundHalfEven_mono)
    then have "(of_int (roundHalfEven (x / pow2 (ilog2 y - 52))) :: rat)
        \<le> of_int (roundHalfEven (y / pow2 (ilog2 y - 52)))"
      by (simp only: of_int_le_iff)
    then show ?thesis using pe
      by (simp add: toDoublePos_def Let_def True mult_right_mono)
  next
    case False
    then have "ilog2 x + 1 \<le> ilog2 y" using ilog2_mono [OF assms] by simp
    then have "pow2 (ilog2 x + 1) \<le> pow2 (ilog2 y)" by (rule pow2_mono)
    then show ?thesis
      using toDoublePos_bounds(2) [OF assms(1)] toDoublePos_bounds(1) [OF y] by linarith
  qed
qed

lemma toDouble_mono: "0 \<le> x \<Longrightarrow> x \<le> y \<Longrightarrow> toDouble x \<le> toDouble y"
  using toDoublePos_mono [of x y] toDoublePos_bounds(1) [of y] pow2_pos [of "ilog2 y"]
  by (auto simp: toDouble_def)

lemma toDouble_nonneg: "0 \<le> x \<Longrightarrow> 0 \<le> toDouble x"
  using toDoublePos_bounds(1) [of x] pow2_pos [of "ilog2 x"]
  by (auto simp: toDouble_def)

lemma toDouble_err: "0 \<le> x \<Longrightarrow> \<bar>toDouble x - x\<bar> \<le> x * pow2 (- 53)"
  using toDoublePos_err [of x] by (auto simp: toDouble_def)

lemma toDouble_1: "toDouble 1 = 1"
  by code_simp

lemma toDouble_100: "toDouble 100 = 100"
  by code_simp


lemma pow2_m53: "pow2 (- 53) = 1 / 9007199254740992"
  by (simp add: pow2_def power_int_minus)

lemma quot_bounds:
  fixes d t :: nat
  assumes "0 < t" "d \<le> t"
  shows "(0::rat) \<le> of_nat d / of_nat t" "(of_nat d / of_nat t :: rat) \<le> 1"
  using assms by simp_all

lemma fdiv_bounds:
  fixes d t :: nat
  assumes "0 < t" "d \<le> t"
  shows "0 \<le> fdiv (of_nat d) (of_nat t)" "fdiv (of_nat d) (of_nat t) \<le> 1"
proof -
  show "0 \<le> fdiv (of_nat d) (of_nat t)"
    unfolding fdiv_def using quot_bounds(1) [OF assms] by (rule toDouble_nonneg)
  have "toDouble (of_nat d / of_nat t) \<le> toDouble 1"
    using quot_bounds [OF assms] by (rule toDouble_mono)
  then show "fdiv (of_nat d) (of_nat t) \<le> 1"
    by (simp add: fdiv_def toDouble_1)
qed

lemma fmul_bounds:
  assumes "0 \<le> y" "y \<le> 1"
  shows "0 \<le> fmul y 100" "fmul y 100 \<le> 100"
proof -
  have a: "0 \<le> y * 100" "y * 100 \<le> 100" using assms by simp_all
  show "0 \<le> fmul y 100" unfolding fmul_def using a(1) by (rule toDouble_nonneg)
  have "toDouble (y * 100) \<le> toDouble 100" using a by (rule toDouble_mono)
  then show "fmul y 100 \<le> 100" by (simp add: fmul_def toDouble_100)
qed

lemma pct_range:
  fixes d t :: nat
  assumes "0 < t" "d \<le> t"
  shows "0 \<le> mathRound (fmul (fdiv (of_nat d) (of_nat t)) 100)"
    "mathRound (fmul (fdiv (of_nat d) (of_nat t)) 100) \<le> 100"
proof -
  let ?z = "fmul (fdiv (of_nat d) (of_nat t)) 100"
  have z: "0 \<le> ?z" "?z \<le> 100"
    using fmul_bounds [OF fdiv_bounds [OF assms]] by simp_all
  show "0 \<le> mathRound ?z" using z(1) by (simp add: mathRound_def)
  have "?z + 1 / 2 < of_int 101" using z(2) by simp
  then have "\<lfloor>?z + 1 / 2\<rfloor> < 101" by (simp only: floor_less_iff)
  then show "mathRound ?z \<le> 100" by (simp add: mathRound_def)
qed

lemma mathRound_100: "mathRound 100 = 100"
  unfolding mathRound_def by (rule floor_unique) simp_all

lemma pct_full:
  fixes t :: nat
  assumes "0 < t"
  shows "mathRound (fmul (fdiv (of_nat t) (of_nat t)) 100) = 100"
proof -
  have "fdiv (of_nat t) (of_nat t) = 1" using assms by (simp add: fdiv_def toDouble_1)
  then have "fmul (fdiv (of_nat t) (of_nat t)) 100 = 100" by (simp add: fmul_def toDouble_100)
  then show ?thesis by (simp add: mathRound_100)
qed

lemma pct_error:
  fixes d t :: nat
  assumes "0 < t" "d \<le> t"
  shows "\<bar>fmul (fdiv (of_nat d) (of_nat t)) 100 - 100 * (of_nat d / of_nat t)\<bar>
     \<le> 200 / 9007199254740992"
proof -
  let ?q = "of_nat d / of_nat t :: rat"
  let ?y = "fdiv (of_nat d) (of_nat t)"
  let ?z = "fmul ?y 100"
  have q: "0 \<le> ?q" "?q \<le> 1" using quot_bounds [OF assms] by simp_all
  have y: "0 \<le> ?y" "?y \<le> 1" using fdiv_bounds [OF assms] by simp_all
  have "\<bar>?y - ?q\<bar> \<le> ?q * pow2 (- 53)" unfolding fdiv_def using q(1) by (rule toDouble_err)
  then have e1: "\<bar>?y - ?q\<bar> \<le> 1 / 9007199254740992" using q by (simp add: pow2_m53)
  have "0 \<le> ?y * 100" using y by simp
  then have "\<bar>?z - ?y * 100\<bar> \<le> ?y * 100 * pow2 (- 53)" unfolding fmul_def by (rule toDouble_err)
  then have e2: "\<bar>?z - ?y * 100\<bar> \<le> 100 / 9007199254740992" using y by (simp add: pow2_m53)
  show ?thesis using e1 e2 by linarith
qed

lemma pct_near:
  fixes d t :: nat
  assumes "0 < t" "d \<le> t" "t < 2 ^ 32"
  shows "\<bar>of_int (mathRound (fmul (fdiv (of_nat d) (of_nat t)) 100)) - 100 * (of_nat d / of_nat t :: rat)\<bar> \<le> 1 / 2"
proof -
  let ?q = "of_nat d / of_nat t :: rat"
  let ?z = "fmul (fdiv (of_nat d) (of_nat t)) 100"
  define p where "p = mathRound ?z"
  have tpos: "(0::rat) < of_nat t" using assms by simp
  have "(of_nat t :: rat) < of_nat (2 ^ 32)" using assms(3) by (simp only: of_nat_less_iff)
  then have tb: "(of_nat t :: rat) < 4294967296" by simp
  have err: "\<bar>?z - 100 * ?q\<bar> \<le> 200 / 9007199254740992" by (rule pct_error [OF assms(1,2)])
  have fl: "of_int p \<le> ?z + 1 / 2" "?z + 1 / 2 < of_int p + 1"
    unfolding p_def mathRound_def by linarith+
  have qt: "?q * of_nat t = of_nat d" using tpos by simp
  have up: "of_int p \<le> 100 * ?q + 1 / 2"
  proof -
    have "of_int p * (2 * of_nat t) \<le> (100 * ?q + 1 / 2 + 200 / 9007199254740992) * (2 * of_nat t)"
      using fl(1) err tpos by (intro mult_right_mono) linarith+
    also have "\<dots> = 200 * (?q * of_nat t) + of_nat t + 400 / 9007199254740992 * of_nat t"
      by (simp add: algebra_simps)
    also have "\<dots> = 200 * of_nat d + of_nat t + 400 / 9007199254740992 * of_nat t"
      by (simp only: qt)
    also have "\<dots> < 200 * of_nat d + of_nat t + 1" using tb by simp
    finally have "(of_int (p * (2 * int t)) :: rat) < of_int (200 * int d + int t + 1)" by simp
    then have "p * (2 * int t) < 200 * int d + int t + 1" by (simp only: of_int_less_iff)
    then have "p * (2 * int t) \<le> 200 * int d + int t" by simp
    then have "(of_int (p * (2 * int t)) :: rat) \<le> of_int (200 * int d + int t)" by (simp only: of_int_le_iff)
    then have "of_int p * (2 * of_nat t) \<le> (200 * of_nat d + of_nat t :: rat)" by simp
    also have "\<dots> = 200 * (?q * of_nat t) + of_nat t" by (simp only: qt)
    also have "\<dots> = (100 * ?q + 1 / 2) * (2 * of_nat t)" by (simp add: algebra_simps)
    finally show ?thesis using tpos by simp
  qed
  have lo: "100 * ?q - 1 / 2 \<le> of_int p"
  proof -
    have "(100 * ?q - 1 / 2 - 200 / 9007199254740992) * (2 * of_nat t) < of_int p * (2 * of_nat t)"
      using fl(2) err tpos by (intro mult_strict_right_mono) linarith+
    moreover have "(100 * ?q - 1 / 2 - 200 / 9007199254740992) * (2 * of_nat t)
        = 200 * (?q * of_nat t) - of_nat t - 400 / 9007199254740992 * of_nat t"
      by (simp add: algebra_simps)
    moreover note qt
    moreover have "200 * of_nat d - of_nat t - 1 < 200 * of_nat d - of_nat t - 400 / 9007199254740992 * (of_nat t :: rat)"
      using tb by simp
    ultimately have "200 * of_nat d - of_nat t - 1 < of_int p * (2 * of_nat t :: rat)" by linarith
    then have "(of_int (200 * int d - int t - 1) :: rat) < of_int (p * (2 * int t))" by simp
    then have "200 * int d - int t - 1 < p * (2 * int t)" by (simp only: of_int_less_iff)
    then have "200 * int d - int t \<le> p * (2 * int t)" by simp
    then have "(of_int (200 * int d - int t) :: rat) \<le> of_int (p * (2 * int t))" by (simp only: of_int_le_iff)
    then have "(200 * of_nat d - of_nat t :: rat) \<le> of_int p * (2 * of_nat t)" by simp
    moreover have "(200 * (?q * of_nat t) - of_nat t :: rat) = (100 * ?q - 1 / 2) * (2 * of_nat t)"
      by (simp add: algebra_simps)
    moreover note qt
    ultimately have "(100 * ?q - 1 / 2) * (2 * of_nat t) \<le> of_int p * (2 * of_nat t)" by simp
    then show ?thesis using tpos by simp
  qed
  show ?thesis unfolding p_def [symmetric] using up lo by linarith
qed

lemma toDouble_199_200: "toDouble (199 / 200) = 8962163258467287 / 9007199254740992"
  by code_simp

lemma toDouble_995: "toDouble (8962163258467287 / 9007199254740992 * 100) = 199 / 2"
  by code_simp

lemma pct_100_if:
  fixes d t :: nat
  assumes "0 < t" "d \<le> t" "199 * t \<le> 200 * d"
  shows "mathRound (fmul (fdiv (of_nat d) (of_nat t)) 100) = 100"
proof -
  let ?q = "of_nat d / of_nat t :: rat"
  have tpos: "(0::rat) < of_nat t" using assms by simp
  have "(of_nat (199 * t) :: rat) \<le> of_nat (200 * d)" using assms(3) by (simp only: of_nat_le_iff)
  then have "199 / 200 \<le> ?q" using tpos by (simp add: pos_le_divide_eq)
  then have "toDouble (199 / 200) \<le> toDouble ?q" by (intro toDouble_mono) simp_all
  then have y: "8962163258467287 / 9007199254740992 \<le> fdiv (of_nat d) (of_nat t)"
    by (simp only: fdiv_def toDouble_199_200)
  have "toDouble (8962163258467287 / 9007199254740992 * 100) \<le> toDouble (fdiv (of_nat d) (of_nat t) * 100)"
    using y by (intro toDouble_mono) simp_all
  then have "199 / 2 \<le> fmul (fdiv (of_nat d) (of_nat t)) 100"
    by (simp only: fmul_def toDouble_995)
  then have "of_int 100 \<le> fmul (fdiv (of_nat d) (of_nat t)) 100 + 1 / 2" by simp
  then have "100 \<le> \<lfloor>fmul (fdiv (of_nat d) (of_nat t)) 100 + 1 / 2\<rfloor>" by (simp only: le_floor_iff)
  then have "100 \<le> mathRound (fmul (fdiv (of_nat d) (of_nat t)) 100)" by (simp only: mathRound_def)
  then show ?thesis using pct_range(2) [OF assms(1,2)] by linarith
qed

lemma pct_100_only_if:
  fixes d t :: nat
  assumes "0 < t" "d \<le> t" "t < 2 ^ 32" "mathRound (fmul (fdiv (of_nat d) (of_nat t)) 100) = 100"
  shows "199 * t \<le> 200 * d"
proof (rule ccontr)
  assume "\<not> 199 * t \<le> 200 * d"
  then have "200 * d + 1 \<le> 199 * t" by simp
  then have "(of_nat (200 * d + 1) :: rat) \<le> of_nat (199 * t)" by (simp only: of_nat_le_iff)
  then have c: "200 * of_nat d + 1 \<le> (199 * of_nat t :: rat)" by simp
  let ?q = "of_nat d / of_nat t :: rat"
  let ?z = "fmul (fdiv (of_nat d) (of_nat t)) 100"
  have tpos: "(0::rat) < of_nat t" using assms by simp
  have "(of_nat t :: rat) < of_nat (2 ^ 32)" using assms(3) by (simp only: of_nat_less_iff)
  then have tb: "(of_nat t :: rat) < 4294967296" by simp
  have err: "\<bar>?z - 100 * ?q\<bar> \<le> 200 / 9007199254740992" by (rule pct_error [OF assms(1,2)])
  have qt: "?q * of_nat t = of_nat d" using tpos by simp
  have "(?z + 1 / 2) * (2 * of_nat t) \<le> (100 * ?q + 1 / 2 + 200 / 9007199254740992) * (2 * of_nat t)"
    using err tpos by (intro mult_right_mono) linarith+
  also have "\<dots> = 200 * (?q * of_nat t) + of_nat t + 400 / 9007199254740992 * of_nat t"
    by (simp add: algebra_simps)
  also have "\<dots> = 200 * of_nat d + of_nat t + 400 / 9007199254740992 * of_nat t"
    by (simp only: qt)
  also have "\<dots> < 200 * of_nat d + of_nat t + 1" using tb by simp
  also have "\<dots> \<le> 200 * of_nat t" using c by simp
  also have "\<dots> = 100 * (2 * of_nat t)" by simp
  finally have "?z + 1 / 2 < of_int 100" using tpos by simp
  then have "\<lfloor>?z + 1 / 2\<rfloor> < 100" by (simp only: floor_less_iff)
  then have "mathRound ?z < 100" by (simp only: mathRound_def)
  then show False using assms(4) by linarith
qed

section \<open>Properties of the tracer\<close>

subsection \<open>Every call of the tracer returns\<close>

text \<open>
  A recursive call is made on a path that module resolution returned, and only after the
  calling file has been added to \<^verbatim>\<open>analyzedFiles\<close>; a file in \<^verbatim>\<open>analyzedFiles\<close> is
  never scanned again. So the depth of the recursion is bounded by the number of
  resolvable paths that are not yet in \<^verbatim>\<open>analyzedFiles\<close>.
\<close>

lemma stat_resolvable: "stat E p = Inr k \<Longrightarrow> resolve E p \<in> resolvable E"
proof -
  assume "stat E p = Inr k"
  then have "p \<in> fst ` set (files E) \<or> p \<in> set (dirs E)"
    by (auto simp: stat_def split: if_splits dest!: map_of_SomeD intro: rev_image_eqI)
  then show ?thesis by (auto simp: resolvable_def)
qed

lemma tryExtensions_resolvable: "tryExtensions E b exts = Some r \<Longrightarrow> r \<in> resolvable E"
  by (induction exts) (auto simp: Let_def split: sum.splits dest: stat_resolvable)

lemma resolveImportPath_resolvable: "resolveImportPath E p d = Some r \<Longrightarrow> r \<in> resolvable E"
  by (auto simp: resolveImportPath_def Let_def split: if_splits sum.splits
      dest: stat_resolvable tryExtensions_resolvable)

lemma card_resolvable: "card (resolvable E) \<le> length (files E) + length (dirs E)"
proof -
  have "card (resolvable E) \<le> length (map (resolve E) (map fst (files E) @ dirs E))"
    unfolding resolvable_def by (rule card_length)
  then show ?thesis by simp
qed

lemma finite_resolvable: "finite (resolvable E)"
  by (simp add: resolvable_def)

lemma analyzedFiles_addExportSt [simp]: "analyzedFiles (addExportSt f te st) = analyzedFiles st"
  by (simp add: addExportSt_def)

lemma analyzedFiles_fold_addExportSt [simp]:
  "analyzedFiles (fold (\<lambda>x. addExportSt f (g x)) xs st) = analyzedFiles st"
  by (induction xs arbitrary: st) simp_all

lemma analyzedFiles_fold_addExportSt' [simp]:
  "analyzedFiles (fold (addExportSt f) xs st) = analyzedFiles st"
  by (induction xs arbitrary: st) simp_all

lemma traceLine_returns:
  assumes R: "\<And>r s. r \<in> resolvable E \<Longrightarrow> V \<subseteq> analyzedFiles s \<Longrightarrow>
      \<exists>s'. rec r s = Some s' \<and> analyzedFiles s \<subseteq> analyzedFiles s'"
    and V: "V \<subseteq> analyzedFiles st"
  shows "\<exists>st'. traceLine rec E f c d i l st = Some st' \<and> analyzedFiles st \<subseteq> analyzedFiles st'"
proof (cases "startsWith (trim l) ''export *'' \<and> (\<exists>p r. fromMatch (trim l) = Some p \<and> resolveImportPath E p d = Some r)")
  case True
  then obtain p r where pr: "fromMatch (trim l) = Some p" "resolveImportPath E p d = Some r"
    and star: "startsWith (trim l) ''export *''" by blast
  have "r \<in> resolvable E" using pr(2) by (rule resolveImportPath_resolvable)
  from R [OF this V] obtain s' where s': "rec r st = Some s'" "analyzedFiles st \<subseteq> analyzedFiles s'"
    by blast
  show ?thesis using star pr s' by (simp add: traceLine_def Let_def)
next
  case False
  then show ?thesis
    by (auto simp: traceLine_def Let_def split: option.splits)
qed

lemma traceLines_returns:
  assumes R: "\<And>r s. r \<in> resolvable E \<Longrightarrow> V \<subseteq> analyzedFiles s \<Longrightarrow>
      \<exists>s'. rec r s = Some s' \<and> analyzedFiles s \<subseteq> analyzedFiles s'"
    and V: "V \<subseteq> analyzedFiles st"
  shows "\<exists>st'. traceLines rec E f c d ils st = Some st' \<and> analyzedFiles st \<subseteq> analyzedFiles st'"
  using V
proof (induction ils arbitrary: st)
  case Nil
  then show ?case by simp
next
  case (Cons il ils)
  obtain i l where il: "il = (i, l)" by (cases il)
  from traceLine_returns [where rec = rec and V = V and E = E and st = st and f = f and c = c and d = d and i = i and l = l, OF R Cons.prems]
  obtain s1 where s1: "traceLine rec E f c d i l st = Some s1" "analyzedFiles st \<subseteq> analyzedFiles s1"
    by blast
  have "V \<subseteq> analyzedFiles s1" using Cons.prems s1(2) by blast
  from Cons.IH [OF this] obtain s2 where
    "traceLines rec E f c d ils s1 = Some s2" "analyzedFiles s1 \<subseteq> analyzedFiles s2" by blast
  then show ?case using s1 il by auto
qed

lemma traceBody_returns:
  assumes R: "\<And>r s. r \<in> resolvable E \<Longrightarrow> insert f (analyzedFiles st) \<subseteq> analyzedFiles s \<Longrightarrow>
      \<exists>s'. rec r s = Some s' \<and> analyzedFiles s \<subseteq> analyzedFiles s'"
  shows "\<exists>st'. traceBody rec E f st = Some st' \<and> insert f (analyzedFiles st) \<subseteq> analyzedFiles st'"
proof (cases "f \<in> analyzedFiles st")
  case True
  then show ?thesis by (auto simp: traceBody_def)
next
  case False
  let ?st1 = "st\<lparr>analyzedFiles := insert f (analyzedFiles st)\<rparr>"
  show ?thesis
  proof (cases "readTextFile E f")
    case (Inl e)
    then show ?thesis using False by (auto simp: traceBody_def Let_def)
  next
    case (Inr content)
    have V: "insert f (analyzedFiles st) \<subseteq> analyzedFiles ?st1" by simp
    from traceLines_returns [where E = E and V = "insert f (analyzedFiles st)" and rec = rec and st = ?st1
        and f = f and c = content and d = "dirname E f" and ils = "enumerate 0 (splitLines content)", OF R V]
    obtain s' where "traceLines rec E f content (dirname E f) (enumerate 0 (splitLines content)) ?st1 = Some s'"
      "analyzedFiles ?st1 \<subseteq> analyzedFiles s'" by blast
    then show ?thesis using False Inr by (auto simp: traceBody_def Let_def)
  qed
qed

lemma traceDepth_inner:
  "f \<in> resolvable E \<Longrightarrow> card (resolvable E - analyzedFiles st) < n \<Longrightarrow>
   \<exists>st'. traceDepth n E f st = Some st' \<and> insert f (analyzedFiles st) \<subseteq> analyzedFiles st'"
proof (induction n arbitrary: f st)
  case 0
  then show ?case by simp
next
  case (Suc n)
  show ?case
  proof (cases "f \<in> analyzedFiles st")
    case True
    then show ?thesis by (auto simp: traceBody_def)
  next
    case False
    have R: "\<exists>s'. traceDepth n E r s = Some s' \<and> analyzedFiles s \<subseteq> analyzedFiles s'"
      if "r \<in> resolvable E" "insert f (analyzedFiles st) \<subseteq> analyzedFiles s" for r s
    proof -
      have "resolvable E - analyzedFiles s \<subset> resolvable E - analyzedFiles st"
        using that(2) Suc.prems(1) False by auto
      then have "card (resolvable E - analyzedFiles s) < card (resolvable E - analyzedFiles st)"
        by (intro psubset_card_mono) (simp_all add: finite_resolvable)
      then have "card (resolvable E - analyzedFiles s) < n" using Suc.prems(2) by simp
      from Suc.IH [OF that(1) this] show ?thesis by blast
    qed
    show ?thesis using traceBody_returns [where E = E and f = f and st = st and rec = "traceDepth n E", OF R] by simp
  qed
qed

lemma traceDepth_returns:
  assumes "card (resolvable E) + 2 \<le> n"
  shows "\<exists>st'. traceDepth n E f st = Some st' \<and> insert f (analyzedFiles st) \<subseteq> analyzedFiles st'"
proof -
  obtain m where n: "n = Suc m" and m: "card (resolvable E) < m" using assms by (cases n) auto
  have R: "\<exists>s'. traceDepth m E r s = Some s' \<and> analyzedFiles s \<subseteq> analyzedFiles s'"
    if "r \<in> resolvable E" "insert f (analyzedFiles st) \<subseteq> analyzedFiles s" for r s
  proof -
    have "card (resolvable E - analyzedFiles s) \<le> card (resolvable E)"
      by (intro card_mono) (simp_all add: finite_resolvable)
    then have "card (resolvable E - analyzedFiles s) < m" using m by simp
    from traceDepth_inner [OF that(1) this] show ?thesis by blast
  qed
  show ?thesis unfolding n using traceBody_returns [where E = E and f = f and st = st and rec = "traceDepth m E", OF R] by simp
qed

lemma traceExportsFromFile_returns:
  "\<exists>st'. traceExportsFromFile E f st = Some st' \<and> insert f (analyzedFiles st) \<subseteq> analyzedFiles st'"
  unfolding traceExportsFromFile_def
  by (rule traceDepth_returns) (use card_resolvable [of E] in \<open>simp add: depthBound_def\<close>)

text \<open>A greater depth does not change the result of a call that returns.\<close>

lemma traceLine_mono:
  assumes "\<And>r s s'. rec r s = Some s' \<Longrightarrow> rec' r s = Some s'"
    and "traceLine rec E f c d i l st = Some st'"
  shows "traceLine rec' E f c d i l st = Some st'"
  using assms(2) unfolding traceLine_def Let_def
  by (auto split: if_splits option.splits dest: assms(1))

lemma traceLines_mono:
  assumes "\<And>r s s'. rec r s = Some s' \<Longrightarrow> rec' r s = Some s'"
    and "traceLines rec E f c d ils st = Some st'"
  shows "traceLines rec' E f c d ils st = Some st'"
  using assms(2)
proof (induction ils arbitrary: st)
  case Nil
  then show ?case by simp
next
  case (Cons il ils)
  obtain i l where il: "il = (i, l)" by (cases il)
  from Cons.prems obtain s1 where s1: "traceLine rec E f c d i l st = Some s1"
    "traceLines rec E f c d ils s1 = Some st'"
    by (auto simp: il split: option.splits)
  have "traceLine rec' E f c d i l st = Some s1" using assms(1) s1(1) by (rule traceLine_mono)
  then show ?case using Cons.IH [OF s1(2)] by (simp add: il)
qed

lemma traceBody_mono:
  assumes "\<And>r s s'. rec r s = Some s' \<Longrightarrow> rec' r s = Some s'"
    and "traceBody rec E f st = Some st'"
  shows "traceBody rec' E f st = Some st'"
  using assms(2) unfolding traceBody_def Let_def
  by (auto split: if_splits sum.splits intro: traceLines_mono [OF assms(1)])

lemma traceDepth_Suc: "traceDepth n E f st = Some st' \<Longrightarrow> traceDepth (Suc n) E f st = Some st'"
proof (induction n arbitrary: f st st')
  case 0
  then show ?case by simp
next
  case (Suc n)
  have "traceBody (traceDepth n E) E f st = Some st'" using Suc.prems by simp
  then have "traceBody (traceDepth (Suc n) E) E f st = Some st'"
    by (rule traceBody_mono [rotated]) (rule Suc.IH)
  then show ?case by simp
qed

lemma traceDepth_stable:
  "traceDepth n E f st = Some st' \<Longrightarrow> n \<le> m \<Longrightarrow> traceDepth m E f st = Some st'"
proof (induction m)
  case 0
  then show ?case by simp
next
  case (Suc m)
  show ?case
  proof (cases "n = Suc m")
    case True
    then show ?thesis using Suc.prems(1) by simp
  next
    case False
    then have "n \<le> m" using Suc.prems(2) by simp
    then have "traceDepth m E f st = Some st'" using Suc.IH Suc.prems(1) by simp
    then show ?thesis by (rule traceDepth_Suc)
  qed
qed

lemma traceEntryPoints_returns:
  "\<exists>st'. traceEntryPoints E rootPath ps st = Some st' \<and> analyzedFiles st \<subseteq> analyzedFiles st'
     \<and> (\<forall>p \<in> set ps. join E rootPath p \<in> analyzedFiles st')"
proof (induction ps arbitrary: st)
  case Nil
  then show ?case by simp
next
  case (Cons p ps)
  from traceExportsFromFile_returns [of E "join E rootPath p" st]
  obtain s1 where s1: "traceExportsFromFile E (join E rootPath p) st = Some s1"
    "insert (join E rootPath p) (analyzedFiles st) \<subseteq> analyzedFiles s1" by blast
  from Cons.IH [of s1] obtain s2 where s2: "traceEntryPoints E rootPath ps s1 = Some s2"
    "analyzedFiles s1 \<subseteq> analyzedFiles s2" "\<forall>p \<in> set ps. join E rootPath p \<in> analyzedFiles s2"
    by blast
  show ?case using s1 s2 by auto
qed

lemma traceExportsFromFile_unreadable:
  assumes "readTextFile E f = Inl e" "f \<notin> analyzedFiles st"
  shows "traceExportsFromFile E f st = Some (st\<lparr>analyzedFiles := insert f (analyzedFiles st)\<rparr>)"
proof -
  obtain m where m: "depthBound E = Suc m" by (simp add: depthBound_def)
  show ?thesis using assms by (simp add: traceExportsFromFile_def m traceBody_def Let_def)
qed

lemma analyzeFromExports_returns:
  "\<exists>st'. traceEntryPoints E rootPath (exportPaths ex) st = Some st'
     \<and> analyzeFromExports E rootPath ex syms st
         = Some (analyzeFileForJSDoc E (uniqueExports (exportMap st')) syms rootPath)"
  using traceEntryPoints_returns [of E rootPath "exportPaths ex" st]
  by (auto simp: analyzeFromExports_def)

subsection \<open>The statistics of a list of symbols\<close>

lemma calculateStats_fields:
  "total (calculateStats syms) = length syms"
  "documented (calculateStats syms) = length (filter hasJSDoc syms)"
  "undocumented (calculateStats syms) = length (filter (\<lambda>s. \<not> hasJSDoc s) syms)"
  "percentage (calculateStats syms) =
     (if 0 < length syms
      then mathRound (fmul (fdiv (of_nat (length (filter hasJSDoc syms))) (of_nat (length syms))) 100)
      else 100)"
  by (simp_all add: calculateStats_def Let_def)

text \<open>
  Claim C8. For every list of symbols, the statistics satisfy
  documented + undocumented = total and 0 \<le> percentage \<le> 100; the percentage is 100
  when total is 0, and otherwise it is an integer nearest to documented / total * 100
  (at distance at most one half from the exact quotient), for every list as long as an
  array can be (fewer than \<open>2 ^ 32\<close> elements).
\<close>

theorem calculateStats_sound:
  "documented (calculateStats syms) + undocumented (calculateStats syms)
      = total (calculateStats syms)
   \<and> 0 \<le> percentage (calculateStats syms)
   \<and> percentage (calculateStats syms) \<le> 100
   \<and> (total (calculateStats syms) = 0 \<longrightarrow> percentage (calculateStats syms) = 100)
   \<and> (0 < total (calculateStats syms) \<and> total (calculateStats syms) < 2 ^ 32 \<longrightarrow>
        \<bar>of_int (percentage (calculateStats syms))
          - 100 * (of_nat (documented (calculateStats syms)) / of_nat (total (calculateStats syms)) :: rat)\<bar>
        \<le> 1 / 2)"
proof -
  let ?d = "length (filter hasJSDoc syms)"
  let ?t = "length syms"
  have dt: "?d \<le> ?t" by (rule length_filter_le)
  have sum: "?d + length (filter (\<lambda>s. \<not> hasJSDoc s) syms) = ?t"
    by (rule sum_length_filter_compl)
  have range: "0 \<le> percentage (calculateStats syms) \<and> percentage (calculateStats syms) \<le> 100"
  proof (cases "0 < ?t")
    case True
    then show ?thesis using pct_range [OF True dt] by (simp add: calculateStats_fields)
  next
    case False
    then show ?thesis by (simp add: calculateStats_fields)
  qed
  have near: "\<bar>of_int (percentage (calculateStats syms)) - 100 * (of_nat ?d / of_nat ?t :: rat)\<bar> \<le> 1 / 2"
    if "0 < ?t" "?t < 2 ^ 32"
    using pct_near [OF that(1) dt that(2)] that(1) by (simp add: calculateStats_fields)
  show ?thesis using sum range near by (simp add: calculateStats_fields)
qed

theorem calculateStats_sound_witness:
  "total (calculateStats []) = 0 \<and> percentage (calculateStats []) = 100
   \<and> 0 < total (calculateStats symbols1of3) \<and> total (calculateStats symbols1of3) < 2 ^ 32
   \<and> \<bar>of_int (percentage (calculateStats symbols1of3)) - 100 * (1 / 3 :: rat)\<bar> \<le> 1 / 2"
proof -
  have a: "total (calculateStats symbols1of3) = 3" "documented (calculateStats symbols1of3) = 1"
    by (simp_all add: calculateStats_fields symbols1of3_def aSymbol_def)
  have ne: "symbols1of3 \<noteq> []" by (simp add: symbols1of3_def)
  show ?thesis
    using calculateStats_sound [of "[]"] calculateStats_sound [of symbols1of3] a ne
    by (simp add: calculateStats_fields(1))
qed

text \<open>
  Claim C2, as stated: the percentage is 100 if and only if total is 0 or every symbol
  is documented. It fails for 200 documented symbols out of 201: 200 / 201 * 100 is
  99.50..., which \<^verbatim>\<open>Math.round\<close> takes to 100.
\<close>

theorem percentage_100_iff_all_documented_counterexample:
  "\<not> (percentage (calculateStats symbols200of201) = 100 \<longleftrightarrow>
       total (calculateStats symbols200of201) = 0 \<or>
       documented (calculateStats symbols200of201) = total (calculateStats symbols200of201))"
proof -
  have "percentage (calculateStats symbols200of201) = 100" by code_simp
  moreover have "total (calculateStats symbols200of201) = 201"
    by (simp add: calculateStats_fields symbols200of201_def)
  moreover have "documented (calculateStats symbols200of201) = 200"
    by (simp add: calculateStats_fields symbols200of201_def aSymbol_def)
  ultimately show ?thesis by simp
qed

text \<open>
  Claim C2, amended: the percentage is 100 exactly when total is 0 or at least 99.5
  percent of the symbols are documented (199 * total \<le> 200 * documented), which holds
  in particular when all of them are.
\<close>

theorem percentage_100_iff:
  assumes "total (calculateStats syms) < 2 ^ 32"
  shows "percentage (calculateStats syms) = 100 \<longleftrightarrow>
     total (calculateStats syms) = 0 \<or>
     199 * total (calculateStats syms) \<le> 200 * documented (calculateStats syms)"
proof (cases "0 < length syms")
  case True
  have dt: "length (filter hasJSDoc syms) \<le> length syms" by (rule length_filter_le)
  have lt: "length syms < 2 ^ 32" using assms by (simp add: calculateStats_fields)
  show ?thesis
    using pct_100_if [OF True dt] pct_100_only_if [OF True dt lt] True
    by (auto simp: calculateStats_fields)
next
  case False
  then show ?thesis by (simp add: calculateStats_fields)
qed

theorem percentage_100_iff_witness:
  "total (calculateStats symbols299of300) < 2 ^ 32
   \<and> percentage (calculateStats symbols299of300) = 100
   \<and> documented (calculateStats symbols299of300) \<noteq> total (calculateStats symbols299of300)"
proof -
  have a: "total (calculateStats symbols299of300) = 300" "documented (calculateStats symbols299of300) = 299"
    by (simp_all add: calculateStats_fields symbols299of300_def aSymbol_def)
  show ?thesis using percentage_100_iff [of symbols299of300] a by simp
qed

text \<open>
  Claim C5. Tracing terminates on every file system, in particular on two files that
  re-export everything from each other: the call returns an export table, whatever the
  state it starts from. The file is in \<^verbatim>\<open>analyzedFiles\<close> when the call returns, a call
  on a file that is already there returns at once with the state unchanged, and no depth
  beyond \<open>depthBound\<close> changes the result.
\<close>

theorem traceExportsFromFile_terminates:
  "\<exists>st'. traceExportsFromFile E filePath st = Some st'
      \<and> filePath \<in> analyzedFiles st' \<and> analyzedFiles st \<subseteq> analyzedFiles st'
      \<and> (filePath \<in> analyzedFiles st \<longrightarrow> st' = st)
      \<and> (\<forall>n. depthBound E \<le> n \<longrightarrow> traceDepth n E filePath st = Some st')"
proof -
  have "card (resolvable E) + 2 \<le> depthBound E"
    using card_resolvable [of E] by (simp add: depthBound_def)
  from traceDepth_returns [OF this, of filePath st]
  obtain st' where st': "traceDepth (depthBound E) E filePath st = Some st'"
    "insert filePath (analyzedFiles st) \<subseteq> analyzedFiles st'" by blast
  have "st' = st" if "filePath \<in> analyzedFiles st"
    using st'(1) that by (simp add: depthBound_def traceBody_def)
  moreover have "traceDepth n E filePath st = Some st'" if "depthBound E \<le> n" for n
    using st'(1) that by (rule traceDepth_stable)
  ultimately show ?thesis using st' by (auto simp: traceExportsFromFile_def)
qed

theorem traceExportsFromFile_terminates_witness:
  "resolveImportPath cycle ''./b.ts'' (dirname cycle ''/r/a.ts'') = Some ''/r/b.ts''
   \<and> resolveImportPath cycle ''./a.ts'' (dirname cycle ''/r/b.ts'') = Some ''/r/a.ts''
   \<and> (\<exists>st'. traceExportsFromFile cycle ''/r/a.ts'' emptyTrace = Some st' \<and> ''/r/a.ts'' \<in> analyzedFiles st')
   \<and> (\<exists>st'. traceExportsFromFile cycle ''/r/b.ts'' emptyTrace = Some st' \<and> ''/r/b.ts'' \<in> analyzedFiles st')"
proof -
  have "resolveImportPath cycle ''./b.ts'' (dirname cycle ''/r/a.ts'') = Some ''/r/b.ts''"
    by code_simp
  moreover have "resolveImportPath cycle ''./a.ts'' (dirname cycle ''/r/b.ts'') = Some ''/r/a.ts''"
    by code_simp
  ultimately show ?thesis
    using traceExportsFromFile_terminates [of cycle "''/r/a.ts''" emptyTrace]
      traceExportsFromFile_terminates [of cycle "''/r/b.ts''" emptyTrace]
    by blast
qed

text \<open>The export tables of the two mutually re-exporting files: the file entered first
  copies the bucket of the other, which was still empty for the first file itself.\<close>

lemma cycle_table:
  "map_option (map (\<lambda>(f, b). (f, map tracedOf b)) \<circ> exportMap)
     (traceExportsFromFile cycle ''/r/a.ts'' emptyTrace)
   = Some [(''/r/b.ts'', [(''b'', ''b'', ''/r/b.ts'', 2)]),
           (''/r/a.ts'', [(''b'', ''b'', ''/r/b.ts'', 2), (''a'', ''a'', ''/r/a.ts'', 2)])]"
  by code_simp

text \<open>
  Claim C10. When the \<^verbatim>\<open>exports\<close> field of the configuration is an object,
  \<^verbatim>\<open>analyzeDirectory\<close> traces every value of the object as an entry point (each
  ends up in \<^verbatim>\<open>analyzedFiles\<close>, and the symbols come from the export table of that
  traversal), but the \<^verbatim>\<open>exportPath\<close> of its result is the first value only.
\<close>

theorem exports_record_traces_all_reports_first:
  assumes "loadDenoConfig E (resolve E targetPath) = Inr (Some c)"
    and "exports c = Some (ExportsRecord kvs)"
  shows "\<exists>st' r. traceEntryPoints E (resolve E targetPath) (map snd kvs) emptyTrace = Some st'
     \<and> (\<forall>v \<in> set (map snd kvs). join E (resolve E targetPath) v \<in> analyzedFiles st')
     \<and> analyzeDirectory E targetPath = Some (Inr r)
     \<and> symbols r = analyzeFileForJSDoc E (uniqueExports (exportMap st')) [] (resolve E targetPath)
     \<and> exportPath r = (case map snd kvs of [] \<Rightarrow> None | v # vs \<Rightarrow> Some v)"
proof -
  let ?root = "resolve E targetPath"
  from traceEntryPoints_returns [of E ?root "map snd kvs" emptyTrace]
  obtain st' where st': "traceEntryPoints E ?root (map snd kvs) emptyTrace = Some st'"
    "\<forall>p \<in> set (map snd kvs). join E ?root p \<in> analyzedFiles st'" by blast
  have a: "analyzeFromExports E ?root (ExportsRecord kvs) [] emptyTrace
      = Some (analyzeFileForJSDoc E (uniqueExports (exportMap st')) [] ?root)"
    using st'(1) by (simp add: analyzeFromExports_def exportPaths_def)
  have "analyzeDirectory E targetPath
      = Some (Inr (mkResult ?root (Some c) (analyzeFileForJSDoc E (uniqueExports (exportMap st')) [] ?root)))"
    using assms a by (simp add: analyzeDirectory_def Let_def configExports_def truthy_def)
  then show ?thesis using st' assms(2)
    by (auto simp: mkResult_def exportPathOf_def configExports_def)
qed

theorem exports_record_traces_all_reports_first_witness:
  "loadDenoConfig twoEntries (resolve twoEntries ''/r'') = Inr (Some twoEntriesConfig)
   \<and> exports twoEntriesConfig = Some (ExportsRecord [(''.'', ''./mod.ts''), (''./x'', ''./x.ts'')])
   \<and> (\<exists>(st' :: traceState) r. ''/r/mod.ts'' \<in> analyzedFiles st' \<and> ''/r/x.ts'' \<in> analyzedFiles st'
        \<and> analyzeDirectory twoEntries ''/r'' = Some (Inr r) \<and> exportPath r = Some ''./mod.ts'')"
proof -
  have a: "loadDenoConfig twoEntries (resolve twoEntries ''/r'') = Inr (Some twoEntriesConfig)"
    by code_simp
  have b: "exports twoEntriesConfig = Some (ExportsRecord [(''.'', ''./mod.ts''), (''./x'', ''./x.ts'')])"
    by (simp add: twoEntriesConfig_def)
  have j: "join twoEntries (resolve twoEntries ''/r'') ''./mod.ts'' = ''/r/mod.ts''"
    "join twoEntries (resolve twoEntries ''/r'') ''./x.ts'' = ''/r/x.ts''"
    by code_simp+
  from exports_record_traces_all_reports_first [OF a b]
  obtain st' :: traceState and r where h:
    "\<forall>v \<in> set (map snd [(''.'', ''./mod.ts''), (''./x'', ''./x.ts'')]).
       join twoEntries (resolve twoEntries ''/r'') v \<in> analyzedFiles st'"
    "analyzeDirectory twoEntries ''/r'' = Some (Inr r)"
    "exportPath r = (case map snd [(''.'', ''./mod.ts''), (''./x'', ''./x.ts'')] of [] \<Rightarrow> None | v # vs \<Rightarrow> Some v)"
    by blast
  have "''/r/mod.ts'' \<in> analyzedFiles st'" "''/r/x.ts'' \<in> analyzedFiles st'"
    using h(1) j by simp_all
  moreover have "exportPath r = Some ''./mod.ts''" using h(3) by simp
  ultimately show ?thesis using a b h(2) by blast
qed

text \<open>
  Claim C4, as stated: a failure to read the entry file named by \<^verbatim>\<open>exports\<close>
  reaches the caller as an error. It does not: the entry file \<^verbatim>\<open>/r/mod.ts\<close> of
  this run cannot be read, and the run returns a result with no symbols.
\<close>

theorem missing_entry_counterexample:
  "readTextFile missingEntry ''/r/mod.ts'' = Inl (ReadError ''/r/mod.ts'')
   \<and> exportPath (mkResult ''/r'' (Some missingEntryConfig) []) = Some ''./mod.ts''
   \<and> analyzeDirectory missingEntry ''/r'' = Some (Inr (mkResult ''/r'' (Some missingEntryConfig) []))"
  by code_simp

text \<open>
  Claim C4, amended: in public-API mode no failure to read a file reaches the caller,
  whether the file is the entry file or any other: once the configuration is loaded, the
  run returns a result; an entry file that cannot be read contributes no symbol.
\<close>

theorem public_api_never_throws:
  assumes "loadDenoConfig E (resolve E targetPath) = Inr cfg"
    and "truthy (configExports cfg)"
  shows "(\<exists>r. analyzeDirectory E targetPath = Some (Inr r))
    \<and> (\<forall>p e. configExports cfg = Some (ExportsString p)
          \<and> readTextFile E (join E (resolve E targetPath) p) = Inl e
        \<longrightarrow> analyzeDirectory E targetPath = Some (Inr (mkResult (resolve E targetPath) cfg [])))"
proof -
  let ?root = "resolve E targetPath"
  obtain ex where ex: "configExports cfg = Some ex" using assms(2) by (cases "configExports cfg") (auto simp: truthy_def)
  from analyzeFromExports_returns [of E ?root ex emptyTrace "[]"]
  obtain syms where syms: "analyzeFromExports E ?root ex [] emptyTrace = Some syms" by blast
  have d: "analyzeDirectory E targetPath = Some (Inr (mkResult ?root cfg syms))"
    using assms ex syms by (simp add: analyzeDirectory_def Let_def)
  have "syms = []" if "ex = ExportsString p" "readTextFile E (join E ?root p) = Inl e" for p e
  proof -
    have "traceExportsFromFile E (join E ?root p) emptyTrace
        = Some (emptyTrace\<lparr>analyzedFiles := insert (join E ?root p) (analyzedFiles emptyTrace)\<rparr>)"
      using that(2) by (rule traceExportsFromFile_unreadable) (simp add: emptyTrace_def)
    then show ?thesis using syms that(1)
      by (simp add: analyzeFromExports_def exportPaths_def emptyTrace_def uniqueExports_def
          analyzeFileForJSDoc_def exportsBySource_def)
  qed
  then show ?thesis using d ex by auto
qed

theorem public_api_never_throws_witness:
  "loadDenoConfig missingEntry (resolve missingEntry ''/r'') = Inr (Some missingEntryConfig)
   \<and> truthy (configExports (Some missingEntryConfig))
   \<and> readTextFile missingEntry (join missingEntry (resolve missingEntry ''/r'') ''./mod.ts'') = Inl (ReadError ''/r/mod.ts'')
   \<and> (\<exists>r. analyzeDirectory missingEntry ''/r'' = Some (Inr r) \<and> symbols r = [])"
proof -
  have a: "loadDenoConfig missingEntry (resolve missingEntry ''/r'') = Inr (Some missingEntryConfig)"
    by code_simp
  have b: "truthy (configExports (Some missingEntryConfig))" by code_simp
  have c: "configExports (Some missingEntryConfig) = Some (ExportsString ''./mod.ts'')" by code_simp
  have d: "readTextFile missingEntry (join missingEntry (resolve missingEntry ''/r'') ''./mod.ts'') = Inl (ReadError ''/r/mod.ts'')"
    by code_simp
  show ?thesis using public_api_never_throws [OF a b] a b c d by (auto simp: mkResult_def)
qed

text \<open>
  Claim C6: a documentation block tagged \<^verbatim>\<open>@module\<close> is never bound to a
  declaration, in both modes. \<^verbatim>\<open>analyzeFileForJSDoc\<close> checks the tag;
  \<^verbatim>\<open>analyzeFile\<close>, the scan of the full-scan mode, does not. For a file whose
  module block stands directly before an exported function, the full scan reports the
  function as documented, with the module block as its documentation, while the
  public-API scan of the same file reports it as undocumented.
\<close>

theorem module_doc_counts_in_full_scan:
  "map_sum id (map symbolDoc) (analyzeFile moduleDoc ''/r/x.ts'' [] ''/r'') = Inr [(''foo'', Function, True)]
   \<and> map_sum id (map jsDocContent) (analyzeFile moduleDoc ''/r/x.ts'' [] ''/r'') = Inr [Some ''/** @module */'']
   \<and> map_option (map symbolDoc) (analyzeFromExports moduleDoc ''/r'' (ExportsString ''./x.ts'') [] emptyTrace)
       = Some [(''foo'', Function, False)]"
  by code_simp

end
